theory Spec2Isabelle
  imports Complex_Main "HOL-Library.Word" "HOL-Library.Log_Nat"
begin

section \<open>Values shared by the whole optimizer\<close>

text \<open>
  The optimizer is the class \<open>GLBOptimizer\<close> of \<open>src/utils/glbOptimizer.ts\<close>. It works on
  browser \<open>File\<close> objects and on the \<open>Document\<close> of the glTF-Transform library. Raw buffers
  are lists of bytes and a thrown JavaScript exception is a value of type \<open>error\<close>.
  Counts and sizes are natural numbers. The fractional arithmetic of the inspector, of the
  geometry and compression passes and of the texture resizing is binary64, as in the source.
  The size figures of a result (\<open>stats\<close>) are computed exactly, without rounding.
\<close>

type_synonym byte = "8 word"
type_synonym bytes = "byte list"

datatype error =
    Error string
  | RangeError string
  | TypeError string
  | SyntaxError string

text \<open>A browser \<open>File\<close>: \<open>file.size\<close> is the number of bytes that \<open>file.arrayBuffer()\<close>
  resolves to, and \<open>file.text()\<close> is the same bytes read as a string.\<close>

record js_file =
  fileName :: string
  contents :: bytes

definition arrayBuffer :: "js_file \<Rightarrow> bytes" where
  "arrayBuffer f = contents f"

definition fileSize :: "js_file \<Rightarrow> nat" where
  "fileSize f = length (contents f)"

definition fileText :: "js_file \<Rightarrow> string" where
  "fileText f = map (\<lambda>b. char_of (unat b)) (contents f)"

text \<open>A \<open>Blob\<close> built from one part, and the \<open>Uint8Array\<close> view that the encoder returns:
  a window of \<open>byteLength\<close> bytes at \<open>byteOffset\<close> of its underlying \<open>ArrayBuffer\<close>.\<close>

record blob =
  blobData :: bytes
  blobType :: string

definition blobSize :: "blob \<Rightarrow> nat" where
  "blobSize b = length (blobData b)"

record uint8array =
  underlying :: bytes
  byteOffset :: nat
  byteLength :: nat

definition viewBytes :: "uint8array \<Rightarrow> bytes" where
  "viewBytes u = take (byteLength u) (drop (byteOffset u) (underlying u))"

section \<open>Binary64 arithmetic\<close>

text \<open>
  A JavaScript \<open>number\<close> is an IEEE 754 binary64 value; a finite one is the rational it
  denotes. \<open>binary64 x\<close> is the representable value nearest to \<open>x\<close>, ties going to the even
  significand: \<open>binade x\<close> is the exponent \<open>e\<close> with \<open>2^e \<le> x < 2^(e+1)\<close>, \<open>ulp x\<close> the
  spacing of the representable values around \<open>x\<close> (53 significant bits, subnormal below
  \<open>2^-1022\<close>). The sum, difference, product or quotient that the source computes is
  \<open>binary64\<close> of the exact one, and a decimal literal is \<open>binary64\<close> of its value. Overflow
  to \<open>Infinity\<close> is not modelled.
\<close>

definition roundHalfEven :: "rat \<Rightarrow> int" where
  "roundHalfEven y =
     (let f = \<lfloor>y\<rfloor>; r = y - of_int f
      in if r < 1 / 2 \<or> (r = 1 / 2 \<and> even f) then f else f + 1)"

definition binade :: "rat \<Rightarrow> int" where
  "binade x =
     (let k = bitlen (fst (quotient_of x)) - bitlen (snd (quotient_of x))
      in if 2 powi k \<le> x then k else k - 1)"

definition ulp :: "rat \<Rightarrow> rat" where
  "ulp x = 2 powi (max (binade \<bar>x\<bar>) (- 1022) - 52)"

definition binary64 :: "rat \<Rightarrow> rat" where
  "binary64 x = (if x = 0 then 0 else of_int (roundHalfEven (x / ulp x)) * ulp x)"

section \<open>Format validator\<close>

text \<open>\<open>DataView.getUint32(byteOffset, littleEndian)\<close>: a \<open>RangeError\<close> when the four bytes do
  not lie inside the buffer, otherwise the unsigned 32-bit value of the four bytes.\<close>

definition getUint32 :: "bytes \<Rightarrow> nat \<Rightarrow> bool \<Rightarrow> error + 32 word" where
  "getUint32 view offs littleEndian =
     (if length view < offs + 4
      then Inl (RangeError ''Offset is outside the bounds of the DataView'')
      else
        (let b0 = unat (view ! offs); b1 = unat (view ! (offs + 1));
             b2 = unat (view ! (offs + 2)); b3 = unat (view ! (offs + 3))
         in Inr (if littleEndian
                 then word_of_nat (b0 + 2 ^ 8 * b1 + 2 ^ 16 * b2 + 2 ^ 24 * b3)
                 else word_of_nat (b3 + 2 ^ 8 * b2 + 2 ^ 16 * b1 + 2 ^ 24 * b0))))"

text \<open>\<open>isValidGLB\<close> (lines 108-117): the read sits in a \<open>try\<close> whose \<open>catch\<close> returns false.\<close>

definition isValidGLB :: "bytes \<Rightarrow> bool" where
  "isValidGLB buffer =
     (case getUint32 buffer 0 True of
        Inl e \<Rightarrow> False
      | Inr magic \<Rightarrow> magic = 0x46546C67)"

section \<open>Scene document\<close>

text \<open>
  The part of a glTF-Transform \<open>Document\<close> that the optimizer itself reads or changes.
  Objects that the source compares by identity (textures, held in a JavaScript \<open>Set\<close>)
  carry a reference; a material slot holds the reference of its texture, or nothing.
\<close>

record accessor =
  getCount :: nat

record primitive =
  attributes :: "(string \<times> accessor) list"
  getIndices :: "accessor option"

definition getAttribute :: "primitive \<Rightarrow> string \<Rightarrow> accessor option" where
  "getAttribute p semantic = map_of (attributes p) semantic"

record mesh =
  listPrimitives :: "primitive list"

type_synonym texture_ref = nat

record texture =
  textureRef :: texture_ref
  getImage :: "bytes option"
  getMimeType :: string

record material =
  getBaseColorTexture :: "texture_ref option"
  getNormalTexture :: "texture_ref option"
  getMetallicRoughnessTexture :: "texture_ref option"
  getOcclusionTexture :: "texture_ref option"
  getEmissiveTexture :: "texture_ref option"

record document =
  listScenes :: "nat list"
  listMeshes :: "mesh list"
  listMaterials :: "material list"
  listTextures :: "texture list"
  listAnimations :: "nat list"

section \<open>Settings and results\<close>

datatype texture_quality = High | Medium | Low

record draco_compression =
  enabled :: bool
  level :: rat

record optimization_settings =
  meshDecimation :: rat
  textureQuality :: texture_quality
  dracoCompression :: draco_compression
  wireframeMode :: bool

record model_stats =
  scenes :: nat
  meshes :: nat
  materials :: nat
  textures :: nat
  animations :: nat
  vertices :: nat
  triangles :: int

text \<open>The three shapes of \<open>modelInfo\<close>: the statistics before and after (single file), the
  object whose figures are all the string \<open>'N/A'\<close> (fallback), and the statistics of the
  final document alone (multi-file flow).\<close>

datatype model_info =
    Measured model_stats model_stats
  | NotAvailable
  | Final model_stats

record size_stats =
  originalSize :: int
  optimizedSize :: int
  reduction :: int

record optimization_result =
  optimizedBlob :: blob
  stats :: size_stats
  modelInfo :: model_info

text \<open>One call of \<open>onProgress(progress, stage)\<close>; a run is described by the list of its
  calls, oldest first.\<close>

type_synonym progress = "nat \<times> string"

text \<open>\<open>Math.round\<close> rounds half-way cases up.\<close>

definition js_round :: "rat \<Rightarrow> int" where
  "js_round x = \<lfloor>x + 1 / 2\<rfloor>"

section \<open>The platform: glTF-Transform and the browser\<close>

text \<open>
  The transforms of \<open>@gltf-transform/functions\<close> with the options the optimizer passes.
\<close>

record simplify_options =
  simplifier :: string
  ratio :: rat
  error :: rat
  lockBorder :: bool

record draco_options =
  quantizePosition :: rat
  quantizeNormal :: rat
  quantizeTexcoord :: rat
  quantizeColor :: rat
  quantizeGeneric :: rat

datatype transform =
    Weld rat
  | Simplify simplify_options
  | Resample rat
  | Draco draco_options
  | Dedup
  | Prune

datatype json =
    JNull
  | JBool bool
  | JNumber rat
  | JString string
  | JArray "json list"
  | JObject "(string \<times> json) list"

record canvas =
  canvasWidth :: nat
  canvasHeight :: nat

record image_bitmap =
  bitmapWidth :: nat
  bitmapHeight :: nat
  pixels :: bytes

text \<open>
  Code outside the repository, taken as parameters. A transform works in place: it returns
  the document as it left it and the exception it threw, if any.
  \<^item> \<open>readBinary\<close>, \<open>readJSON\<close>, \<open>writeBinary\<close>: the container codec (\<open>WebIO\<close>);
  \<^item> \<open>runTransform\<close>: one transform function applied to a document;
  \<^item> \<open>JSON_parse\<close>: \<open>JSON.parse\<close>;
  \<^item> \<open>Document_createElement\<close>: the call \<open>document.createElement(tag)\<close> made on an
    instance of the glTF-Transform class \<open>Document\<close>;
  \<^item> \<open>getContext2d\<close>: whether \<open>canvas.getContext('2d')\<close> is non-null;
  \<^item> \<open>createImageBitmap\<close>: decoding of an image blob;
  \<^item> \<open>toBlob\<close>: \<open>ctx.drawImage\<close> of the bitmap onto the sized canvas followed by
    \<open>canvas.toBlob\<close> with a MIME type and a quality; \<open>None\<close> is the null blob.
\<close>

record platform =
  readBinary :: "bytes \<Rightarrow> error + document"
  readJSON :: "json \<Rightarrow> (string \<rightharpoonup> bytes) \<Rightarrow> error + document"
  writeBinary :: "document \<Rightarrow> error + uint8array"
  runTransform :: "transform \<Rightarrow> document \<Rightarrow> document \<times> error option"
  JSON_parse :: "string \<Rightarrow> error + json"
  Document_createElement :: "string \<Rightarrow> error + canvas"
  getContext2d :: "canvas \<Rightarrow> bool"
  createImageBitmap :: "blob \<Rightarrow> error + image_bitmap"
  toBlob :: "image_bitmap \<Rightarrow> canvas \<Rightarrow> string \<Rightarrow> rat \<Rightarrow> error + blob option"

text \<open>\<open>document.transform(...transforms)\<close>: the transforms run in order and the first
  exception ends the call.\<close>

fun transformDocument :: "platform \<Rightarrow> document \<Rightarrow> transform list \<Rightarrow> document \<times> error option" where
  "transformDocument P d [] = (d, None)"
| "transformDocument P d (t # ts) =
     (case runTransform P t d of
        (d', Some e) \<Rightarrow> (d', Some e)
      | (d', None) \<Rightarrow> transformDocument P d' ts)"

section \<open>Model inspector\<close>

text \<open>
  \<open>getModelStats\<close> (lines 198-235). The two running totals are threaded through the two nested
  \<open>forEach\<close> traversals; \<open>totalTriangles\<close> collects the binary64 quotients \<open>count / 3\<close> in
  a binary64 sum and \<open>Math.floor\<close> is applied once, to the total, when the result object is
  built.
\<close>

definition countPrimitive :: "primitive \<Rightarrow> nat \<times> rat \<Rightarrow> nat \<times> rat" where
  "countPrimitive p totals =
     (case getAttribute p ''POSITION'' of
        None \<Rightarrow> totals
      | Some position \<Rightarrow>
          (let vertexCount = getCount position;
               totalVertices = fst totals + vertexCount
           in case getIndices p of
                Some indices \<Rightarrow>
                  (totalVertices, binary64 (snd totals + binary64 (of_nat (getCount indices) / 3)))
              | None \<Rightarrow>
                  (totalVertices, binary64 (snd totals + binary64 (of_nat vertexCount / 3)))))"

definition countMesh :: "mesh \<Rightarrow> nat \<times> rat \<Rightarrow> nat \<times> rat" where
  "countMesh m totals = fold countPrimitive (listPrimitives m) totals"

definition getModelStats :: "document \<Rightarrow> model_stats" where
  "getModelStats d =
     (let totals = fold countMesh (listMeshes d) (0, 0)
      in \<lparr> scenes = length (listScenes d),
           meshes = length (listMeshes d),
           materials = length (listMaterials d),
           textures = length (listTextures d),
           animations = length (listAnimations d),
           vertices = fst totals,
           triangles = \<lfloor>snd totals\<rfloor> \<rparr>)"

section \<open>Geometry optimization pass\<close>

text \<open>\<open>conservativeMeshOptimization\<close> (lines 119-145): \<open>meshTransforms\<close> is the array
  \<open>transforms\<close> as it stands when \<open>document.transform\<close> is reached.\<close>

definition meshTransforms :: "optimization_settings \<Rightarrow> transform list" where
  "meshTransforms settings =
     (if meshDecimation settings > 0 \<and> meshDecimation settings < 80
      then [Weld (binary64 (1 / 100000)),
            Simplify \<lparr> simplifier = ''meshopt'',
                       ratio = max (binary64 (3 / 10))
                                 (binary64 (1 - binary64 (binary64 (meshDecimation settings / 100)
                                                            * binary64 (7 / 10)))),
                       error = binary64 (1 / 1000),
                       lockBorder = True \<rparr>]
      else [])
     @ [Resample (binary64 (1 / 1000))]"

definition conservativeMeshOptimization ::
  "platform \<Rightarrow> document \<Rightarrow> optimization_settings \<Rightarrow> document \<times> error option" where
  "conservativeMeshOptimization P d settings =
     (let transforms = meshTransforms settings
      in if length transforms > 0 then transformDocument P d transforms else (d, None))"

section \<open>Texture optimization pass\<close>

text \<open>\<open>safeTextureOptimization\<close> (lines 147-176): the set \<open>usedTextures\<close> is filled from the
  five slots of every material, then every texture outside it is disposed of.\<close>

definition addUsed :: "texture_ref option \<Rightarrow> texture_ref set \<Rightarrow> texture_ref set" where
  "addUsed slot used = (case slot of None \<Rightarrow> used | Some t \<Rightarrow> insert t used)"

definition collectMaterial :: "material \<Rightarrow> texture_ref set \<Rightarrow> texture_ref set" where
  "collectMaterial m used =
     addUsed (getEmissiveTexture m)
       (addUsed (getOcclusionTexture m)
         (addUsed (getMetallicRoughnessTexture m)
           (addUsed (getNormalTexture m)
             (addUsed (getBaseColorTexture m) used))))"

definition usedTextures :: "document \<Rightarrow> texture_ref set" where
  "usedTextures d = fold collectMaterial (listMaterials d) {}"

definition safeTextureOptimization :: "document \<Rightarrow> optimization_settings \<Rightarrow> document" where
  "safeTextureOptimization d settings =
     d\<lparr> listTextures := filter (\<lambda>t. textureRef t \<in> usedTextures d) (listTextures d) \<rparr>"

text \<open>The texture stage of \<open>optimizeGLB\<close> (lines 55-57).\<close>

definition textureStage :: "document \<Rightarrow> optimization_settings \<Rightarrow> document" where
  "textureStage d settings =
     (if textureQuality settings \<noteq> High then safeTextureOptimization d settings else d)"

text \<open>
  \<open>optimizeExternalTextures\<close> (lines 393-439), one texture at a time. Every exception raised
  inside the \<open>try\<close> ends the work on that texture and leaves it as it was. In
  \<open>Math.min(maxSize / width, maxSize / height, 1)\<close> a division by zero is \<open>Infinity\<close>, which
  never is the minimum.
\<close>

definition qualityMap :: "texture_quality \<Rightarrow> rat" where
  "qualityMap q =
     (case q of High \<Rightarrow> binary64 (95 / 100) | Medium \<Rightarrow> binary64 (8 / 10)
              | Low \<Rightarrow> binary64 (6 / 10))"

definition maxSizeOf :: "texture_quality \<Rightarrow> nat" where
  "maxSizeOf q = (if q = High then 2048 else if q = Medium then 1024 else 512)"

definition resizeScale :: "nat \<Rightarrow> nat \<Rightarrow> nat \<Rightarrow> rat" where
  "resizeScale maxSize w h =
     min (min (if w = 0 then 1 else binary64 (of_nat maxSize / of_nat w))
              (if h = 0 then 1 else binary64 (of_nat maxSize / of_nat h))) 1"

definition recompressTexture :: "platform \<Rightarrow> optimization_settings \<Rightarrow> texture \<Rightarrow> texture" where
  "recompressTexture P settings t =
     (case getImage t of
        None \<Rightarrow> t
      | Some img \<Rightarrow>
          (case Document_createElement P ''canvas'' of
             Inl e \<Rightarrow> t
           | Inr cv \<Rightarrow>
               if \<not> getContext2d P cv then t
               else
                 (case createImageBitmap P \<lparr> blobData = img, blobType = getMimeType t \<rparr> of
                    Inl e \<Rightarrow> t
                  | Inr imageBitmap \<Rightarrow>
                      (let maxSize = maxSizeOf (textureQuality settings);
                           scale = resizeScale maxSize (bitmapWidth imageBitmap) (bitmapHeight imageBitmap);
                           cv' = cv\<lparr> canvasWidth :=
                                       nat \<lfloor>binary64 (of_nat (bitmapWidth imageBitmap) * scale)\<rfloor>,
                                     canvasHeight :=
                                       nat \<lfloor>binary64 (of_nat (bitmapHeight imageBitmap) * scale)\<rfloor> \<rparr>
                       in case toBlob P imageBitmap cv' ''image/jpeg'' (qualityMap (textureQuality settings)) of
                            Inl e \<Rightarrow> t
                          | Inr None \<Rightarrow> t
                          | Inr (Some compressedBlob) \<Rightarrow>
                              t\<lparr> getImage := Some (blobData compressedBlob),
                                 getMimeType := ''image/jpeg'' \<rparr>))))"

definition optimizeExternalTextures :: "platform \<Rightarrow> document \<Rightarrow> optimization_settings \<Rightarrow> document" where
  "optimizeExternalTextures P d settings =
     d\<lparr> listTextures := map (recompressTexture P settings) (listTextures d) \<rparr>"

text \<open>
  The class \<open>Document\<close> of glTF-Transform has the members \<open>getRoot\<close>, \<open>transform\<close> and the
  \<open>create...\<close> factories of scene objects, and none called \<open>createElement\<close>: calling it
  raises a \<open>TypeError\<close>. In \<open>optimizeExternalTextures\<close> the name \<open>document\<close> is the
  parameter of that class, which hides the page's DOM document.
\<close>

definition gltfDocument_createElement :: "string \<Rightarrow> error + canvas" where
  "gltfDocument_createElement tag = Inl (TypeError ''document.createElement is not a function'')"

section \<open>Geometry compression pass\<close>

text \<open>\<open>safeDracoCompression\<close> (lines 178-196): \<open>dracoOptions\<close> is the object handed to
  \<open>draco\<close>; an exception of the transform is caught and the run goes on.\<close>

definition dracoOptions :: "optimization_settings \<Rightarrow> draco_options" where
  "dracoOptions settings =
     (let lvl = min (level (dracoCompression settings)) 7
      in \<lparr> quantizePosition = max 10 (binary64 (16 - lvl)),
           quantizeNormal = max 8 (binary64 (16 - lvl)),
           quantizeTexcoord = max 10 (binary64 (16 - lvl)),
           quantizeColor = max 8 (binary64 (16 - lvl)),
           quantizeGeneric = max 8 (binary64 (16 - lvl)) \<rparr>)"

definition safeDracoCompression :: "platform \<Rightarrow> document \<Rightarrow> optimization_settings \<Rightarrow> document" where
  "safeDracoCompression P d settings =
     (case transformDocument P d [Draco (dracoOptions settings)] of
        (d', Some e) \<Rightarrow> d'
      | (d', None) \<Rightarrow> d')"

text \<open>The compression stage of both entry points (lines 61-64 and 365-367), without
  the progress call.\<close>

definition compressionStage :: "platform \<Rightarrow> document \<Rightarrow> optimization_settings \<Rightarrow> document" where
  "compressionStage P d settings =
     (if enabled (dracoCompression settings) then safeDracoCompression P d settings else d)"

section \<open>Pipeline orchestrator\<close>

text \<open>
  \<open>safeFallbackOptimization\<close> (lines 237-285). It receives the calls of \<open>onProgress\<close> made
  so far and adds its own four; the waits between them have no other effect.
\<close>

definition safeFallbackOptimization ::
  "js_file \<Rightarrow> optimization_settings \<Rightarrow> progress list \<Rightarrow> progress list \<times> (error + optimization_result)" where
  "safeFallbackOptimization f settings calls =
     (let calls' = calls @ [(25, ''analyzing''), (50, ''optimizing''),
                            (75, ''compressing''), (100, ''finalizing'')];
          buf = arrayBuffer f;
          reductionFactor = (1 :: rat);
          reductionFactor = (if meshDecimation settings > 50
                             then reductionFactor * (9 / 10) else reductionFactor);
          reductionFactor = (if textureQuality settings = Low
                             then reductionFactor * (95 / 100) else reductionFactor)
      in (calls',
          Inr \<lparr> optimizedBlob = \<lparr> blobData = buf, blobType = ''model/gltf-binary'' \<rparr>,
                stats = \<lparr> originalSize = int (fileSize f),
                          optimizedSize = \<lfloor>of_nat (fileSize f) * reductionFactor\<rfloor>,
                          reduction = js_round ((1 - reductionFactor) * 100) \<rparr>,
                modelInfo = NotAvailable \<rparr>))"

text \<open>The body of the \<open>try\<close> of \<open>optimizeGLB\<close> (lines 30-99): the calls of \<open>onProgress\<close>
  made, and the result or the exception that left the block.\<close>

definition optimizeGLB_try ::
  "platform \<Rightarrow> js_file \<Rightarrow> optimization_settings \<Rightarrow> progress list \<times> (error + optimization_result)" where
  "optimizeGLB_try P f settings =
     (let calls1 = [(10, ''analyzing'')];
          buf = arrayBuffer f
      in if \<not> isValidGLB buf then (calls1, Inl (Error ''Invalid GLB file format''))
         else
           (case readBinary P buf of
              Inl e \<Rightarrow> (calls1, Inl e)
            | Inr d0 \<Rightarrow>
                (let originalStats = getModelStats d0;
                     calls2 = calls1 @ [(20, ''analyzing''), (30, ''optimizing'')]
                 in case conservativeMeshOptimization P d0 settings of
                      (d1, Some e) \<Rightarrow> (calls2, Inl e)
                    | (d1, None) \<Rightarrow>
                        (let calls3 = calls2 @ [(50, ''optimizing''), (60, ''compressing'')];
                             d2 = textureStage d1 settings;
                             calls4 = calls3 @ [(75, ''compressing'')];
                             calls5 = (if enabled (dracoCompression settings)
                                       then calls4 @ [(80, ''compressing'')] else calls4);
                             d3 = compressionStage P d2 settings;
                             calls6 = calls5 @ [(90, ''finalizing'')]
                         in case transformDocument P d3 [Dedup, Prune] of
                              (d4, Some e) \<Rightarrow> (calls6, Inl e)
                            | (d4, None) \<Rightarrow>
                                (let calls7 = calls6 @ [(95, ''finalizing'')]
                                 in case writeBinary P d4 of
                                      Inl e \<Rightarrow> (calls7, Inl e)
                                    | Inr optimizedBuffer \<Rightarrow>
                                        if \<not> isValidGLB (underlying optimizedBuffer)
                                        then (calls7, Inl (Error ''Optimization resulted in invalid GLB file''))
                                        else
                                          (let blb = \<lparr> blobData = viewBytes optimizedBuffer,
                                                        blobType = ''model/gltf-binary'' \<rparr>;
                                               optimizedStats = getModelStats d4;
                                               calls8 = calls7 @ [(100, ''completed'')]
                                           in (calls8,
                                               Inr \<lparr> optimizedBlob = blb,
                                                     stats = \<lparr> originalSize = int (fileSize f),
                                                               optimizedSize = int (blobSize blb),
                                                               reduction = js_round
                                                                 ((of_nat (fileSize f) - of_nat (blobSize blb))
                                                                    / of_nat (fileSize f) * 100) \<rparr>,
                                                     modelInfo = Measured originalStats optimizedStats \<rparr>)))))))"

text \<open>\<open>optimizeGLB\<close> (lines 24-106): the \<open>catch\<close> hands the file to the fallback.\<close>

definition optimizeGLB ::
  "platform \<Rightarrow> js_file \<Rightarrow> optimization_settings \<Rightarrow> progress list \<times> (error + optimization_result)" where
  "optimizeGLB P f settings =
     (case optimizeGLB_try P f settings of
        (calls, Inr r) \<Rightarrow> (calls, Inr r)
      | (calls, Inl e) \<Rightarrow> safeFallbackOptimization f settings calls)"

text \<open>The body of the \<open>try\<close> of \<open>optimizeGLTFWithTextures\<close> (lines 334-385).\<close>

definition totalInputSize :: "js_file \<Rightarrow> js_file list \<Rightarrow> nat" where
  "totalInputSize gltfFile textureFiles =
     fileSize gltfFile + fold (\<lambda>tf acc. acc + fileSize tf) textureFiles 0"

text \<open>The \<open>Map\<close> from file name to bytes built at lines 343-347.\<close>

definition textureMapOf :: "js_file list \<Rightarrow> (string \<rightharpoonup> bytes)" where
  "textureMapOf textureFiles =
     fold (\<lambda>tf m. m(fileName tf \<mapsto> arrayBuffer tf)) textureFiles Map.empty"

definition optimizeGLTFWithTextures_try ::
  "platform \<Rightarrow> js_file \<Rightarrow> js_file list \<Rightarrow> optimization_settings
     \<Rightarrow> progress list \<times> (error + optimization_result)" where
  "optimizeGLTFWithTextures_try P gltfFile textureFiles settings =
     (let calls1 = [(10, ''analyzing'')]
      in case JSON_parse P (fileText gltfFile) of
           Inl e \<Rightarrow> (calls1, Inl e)
         | Inr gltfJson \<Rightarrow>
             (let textureMap = textureMapOf textureFiles
              in case readJSON P gltfJson textureMap of
                   Inl e \<Rightarrow> (calls1, Inl e)
                 | Inr d0 \<Rightarrow>
                     (let calls2 = calls1 @ [(30, ''optimizing'')]
                      in case conservativeMeshOptimization P d0 settings of
                           (d1, Some e) \<Rightarrow> (calls2, Inl e)
                         | (d1, None) \<Rightarrow>
                             (let calls3 = calls2 @ [(60, ''compressing'')];
                                  d2 = optimizeExternalTextures P d1 settings;
                                  d3 = compressionStage P d2 settings;
                                  calls4 = calls3 @ [(90, ''finalizing'')]
                              in case transformDocument P d3 [Dedup, Prune] of
                                   (d4, Some e) \<Rightarrow> (calls4, Inl e)
                                 | (d4, None) \<Rightarrow>
                                     (case writeBinary P d4 of
                                        Inl e \<Rightarrow> (calls4, Inl e)
                                      | Inr optimizedBuffer \<Rightarrow>
                                          (let blb = \<lparr> blobData = viewBytes optimizedBuffer,
                                                        blobType = ''model/gltf-binary'' \<rparr>;
                                               calls5 = calls4 @ [(100, ''completed'')];
                                               total = totalInputSize gltfFile textureFiles
                                           in (calls5,
                                               Inr \<lparr> optimizedBlob = blb,
                                                     stats = \<lparr> originalSize = int total,
                                                               optimizedSize = int (blobSize blb),
                                                               reduction = js_round
                                                                 ((of_nat total - of_nat (blobSize blb))
                                                                    / of_nat total * 100) \<rparr>,
                                                     modelInfo = Final (getModelStats d4) \<rparr>)))))))"

text \<open>\<open>optimizeGLTFWithTextures\<close> (lines 327-391): the \<open>catch\<close> logs and throws the same
  exception again.\<close>

definition optimizeGLTFWithTextures ::
  "platform \<Rightarrow> js_file \<Rightarrow> js_file list \<Rightarrow> optimization_settings
     \<Rightarrow> progress list \<times> (error + optimization_result)" where
  "optimizeGLTFWithTextures P gltfFile textureFiles settings =
     (case optimizeGLTFWithTextures_try P gltfFile textureFiles settings of
        (calls, Inr r) \<Rightarrow> (calls, Inr r)
      | (calls, Inl e) \<Rightarrow> (calls, Inl e))"

section \<open>Notions used to state the properties\<close>

text \<open>All primitives of a document in traversal order, the vertex count a primitive adds
  to the total, and the count (of indices, or of vertices when there are no indices) whose
  third it adds to the triangle total.\<close>

definition allPrimitives :: "document \<Rightarrow> primitive list" where
  "allPrimitives d = concat (map listPrimitives (listMeshes d))"

definition positionCount :: "primitive \<Rightarrow> nat" where
  "positionCount p =
     (case getAttribute p ''POSITION'' of None \<Rightarrow> 0 | Some position \<Rightarrow> getCount position)"

definition triangleElements :: "primitive \<Rightarrow> nat" where
  "triangleElements p =
     (case getAttribute p ''POSITION'' of
        None \<Rightarrow> 0
      | Some position \<Rightarrow>
          (case getIndices p of Some indices \<Rightarrow> getCount indices | None \<Rightarrow> getCount position))"

text \<open>The triangle count as the specification words it: each primitive gives
  \<open>floor(indexCount / 3)\<close> when indexed and \<open>floor(vertexCount / 3)\<close> otherwise, and the
  document's count is the sum of these.\<close>

definition specPrimitiveTriangles :: "primitive \<Rightarrow> nat" where
  "specPrimitiveTriangles p =
     (case getIndices p of
        Some indices \<Rightarrow> getCount indices div 3
      | None \<Rightarrow> positionCount p div 3)"

definition specTriangles :: "document \<Rightarrow> nat" where
  "specTriangles d = sum_list (map specPrimitiveTriangles (allPrimitives d))"

text \<open>A document without its primitives that lack a \<open>POSITION\<close> attribute.\<close>

definition hasPosition :: "primitive \<Rightarrow> bool" where
  "hasPosition p = (getAttribute p ''POSITION'' \<noteq> None)"

definition withoutUnpositioned :: "document \<Rightarrow> document" where
  "withoutUnpositioned d =
     d\<lparr> listMeshes :=
          map (\<lambda>m. m\<lparr> listPrimitives := filter hasPosition (listPrimitives m) \<rparr>) (listMeshes d) \<rparr>"

text \<open>The primitives that the inspector counts, and what one of them does to the running
  triangle total.\<close>

definition countedPrimitives :: "document \<Rightarrow> primitive list" where
  "countedPrimitives d = filter hasPosition (allPrimitives d)"

definition addThird :: "primitive \<Rightarrow> rat \<Rightarrow> rat" where
  "addThird p acc = binary64 (acc + binary64 (of_nat (triangleElements p) / 3))"

text \<open>The references held by the five texture slots of a material.\<close>

definition slotRefs :: "material \<Rightarrow> texture_ref set" where
  "slotRefs m =
     {r. getBaseColorTexture m = Some r \<or> getNormalTexture m = Some r \<or>
         getMetallicRoughnessTexture m = Some r \<or> getOcclusionTexture m = Some r \<or>
         getEmissiveTexture m = Some r}"

text \<open>Settings that differ from the given ones in the requested Draco level only.\<close>

definition withLevel :: "optimization_settings \<Rightarrow> rat \<Rightarrow> optimization_settings" where
  "withLevel settings l =
     settings\<lparr> dracoCompression := (dracoCompression settings)\<lparr> level := l \<rparr> \<rparr>"

definition fallbackCalls :: "progress list" where
  "fallbackCalls = [(25, ''analyzing''), (50, ''optimizing''), (75, ''compressing''), (100, ''finalizing'')]"

section \<open>Sample inputs\<close>

definition indexedPrimitive :: "nat \<Rightarrow> nat \<Rightarrow> primitive" where
  "indexedPrimitive v i =
     \<lparr> attributes = [(''POSITION'', \<lparr> getCount = v \<rparr>)], getIndices = Some \<lparr> getCount = i \<rparr> \<rparr>"

definition unpositionedPrimitive :: "nat \<Rightarrow> primitive" where
  "unpositionedPrimitive i =
     \<lparr> attributes = [(''NORMAL'', \<lparr> getCount = 4 \<rparr>)], getIndices = Some \<lparr> getCount = i \<rparr> \<rparr>"

definition sampleTextures :: "texture list" where
  "sampleTextures =
     [\<lparr> textureRef = 0, getImage = Some [0x89, 0x50, 0x4E, 0x47], getMimeType = ''image/png'' \<rparr>,
      \<lparr> textureRef = 1, getImage = Some [0xFF, 0xD8, 0xFF], getMimeType = ''image/jpeg'' \<rparr>,
      \<lparr> textureRef = 2, getImage = None, getMimeType = ''image/png'' \<rparr>]"

definition sampleMaterial :: material where
  "sampleMaterial =
     \<lparr> getBaseColorTexture = Some 1, getNormalTexture = None,
       getMetallicRoughnessTexture = None, getOcclusionTexture = None,
       getEmissiveTexture = Some 1 \<rparr>"

definition sampleDocument :: document where
  "sampleDocument =
     \<lparr> listScenes = [0],
       listMeshes = [\<lparr> listPrimitives = [indexedPrimitive 4 2, indexedPrimitive 4 2] \<rparr>],
       listMaterials = [sampleMaterial],
       listTextures = sampleTextures,
       listAnimations = [] \<rparr>"

definition mixedDocument :: document where
  "mixedDocument =
     sampleDocument\<lparr> listMeshes :=
       [\<lparr> listPrimitives = [indexedPrimitive 3 3, unpositionedPrimitive 6] \<rparr>,
        \<lparr> listPrimitives = [unpositionedPrimitive 9] \<rparr>] \<rparr>"

text \<open>The sample document with one mesh of indexed primitives that have the given index
  counts.\<close>

definition countsDocument :: "nat list \<Rightarrow> document" where
  "countsDocument counts =
     sampleDocument\<lparr> listMeshes := [\<lparr> listPrimitives = map (indexedPrimitive 4) counts \<rparr>] \<rparr>"

definition sampleSettings :: optimization_settings where
  "sampleSettings =
     \<lparr> meshDecimation = 60, textureQuality = Low,
       dracoCompression = \<lparr> enabled = True, level = 9 \<rparr>, wireframeMode = False \<rparr>"

definition sampleFile :: js_file where
  "sampleFile = \<lparr> fileName = ''model.glb'', contents = [0x67, 0x6C, 0x54, 0x46, 2, 0, 0, 0, 12, 0] \<rparr>"

definition badFile :: js_file where
  "badFile = \<lparr> fileName = ''notes.txt'', contents = [0x68, 0x69, 0x21] \<rparr>"

text \<open>A platform on which every operation succeeds: the codec decodes to the sample
  document and encodes to a six-byte container, transforms leave the document alone, and an
  image decodes to a 4096 by 1024 raster.\<close>

definition samplePlatform :: platform where
  "samplePlatform =
     \<lparr> readBinary = (\<lambda>b. Inr sampleDocument),
       readJSON = (\<lambda>j m. Inr sampleDocument),
       writeBinary = (\<lambda>d. Inr \<lparr> underlying = [0x67, 0x6C, 0x54, 0x46, 2, 0], byteOffset = 0, byteLength = 6 \<rparr>),
       runTransform = (\<lambda>t d. (d, None)),
       JSON_parse = (\<lambda>s. Inr (JObject [])),
       Document_createElement = (\<lambda>tag. Inr \<lparr> canvasWidth = 300, canvasHeight = 150 \<rparr>),
       getContext2d = (\<lambda>c. True),
       createImageBitmap = (\<lambda>b. Inr \<lparr> bitmapWidth = 4096, bitmapHeight = 1024, pixels = [] \<rparr>),
       toBlob = (\<lambda>bm c ty q. Inr (Some \<lparr> blobData = [0xFF, 0xD8], blobType = ty \<rparr>)) \<rparr>"

text \<open>The same platform with one operation that throws: the decoder, the animation
  resampling, the final pruning, the encoder, the JSON parser. One whose encoder returns
  bytes without the magic, and one with the \<open>createElement\<close> of the glTF-Transform
  \<open>Document\<close>.\<close>

definition decodeFailsPlatform :: platform where
  "decodeFailsPlatform =
     samplePlatform\<lparr> readBinary := (\<lambda>b. Inl (Error ''invalid container'')),
                     readJSON := (\<lambda>j m. Inl (Error ''invalid container'')) \<rparr>"

definition resampleFailsPlatform :: platform where
  "resampleFailsPlatform =
     samplePlatform\<lparr> runTransform :=
       (\<lambda>t d. case t of Resample tol \<Rightarrow> (d, Some (Error ''resample failed''))
                       | _ \<Rightarrow> (d, None)) \<rparr>"

definition pruneFailsPlatform :: platform where
  "pruneFailsPlatform =
     samplePlatform\<lparr> runTransform :=
       (\<lambda>t d. case t of Prune \<Rightarrow> (d, Some (Error ''prune failed''))
                       | _ \<Rightarrow> (d, None)) \<rparr>"

definition encodeFailsPlatform :: platform where
  "encodeFailsPlatform =
     samplePlatform\<lparr> writeBinary := (\<lambda>d. Inl (Error ''encoder not available'')) \<rparr>"

definition garbagePlatform :: platform where
  "garbagePlatform =
     samplePlatform\<lparr> writeBinary :=
       (\<lambda>d. Inr \<lparr> underlying = [0, 0, 0, 0, 0], byteOffset = 0, byteLength = 5 \<rparr>) \<rparr>"

definition parseFailsPlatform :: platform where
  "parseFailsPlatform =
     samplePlatform\<lparr> JSON_parse := (\<lambda>s. Inl (SyntaxError ''Unexpected token'')) \<rparr>"

text \<open>
  The \<open>simplify\<close> transform of glTF-Transform takes the \<open>MeshoptSimplifier\<close> module as its
  \<open>simplifier\<close> option and calls \<open>simplifier.simplify(...)\<close> for each primitive it visits.
  The source passes the string \<open>'meshopt'\<close> (line 131), which has no such member: the
  transform raises a \<open>TypeError\<close> at the first primitive.
\<close>

definition gltfSimplify :: "simplify_options \<Rightarrow> document \<Rightarrow> document \<times> error option" where
  "gltfSimplify opts d =
     (if allPrimitives d = [] then (d, None)
      else (d, Some (TypeError ''simplifier.simplify is not a function'')))"

definition simplifyThrowsPlatform :: platform where
  "simplifyThrowsPlatform =
     samplePlatform\<lparr> runTransform :=
       (\<lambda>t d. case t of Simplify opts \<Rightarrow> gltfSimplify opts d
                       | _ \<Rightarrow> (d, None)) \<rparr>"

definition gltfPlatform :: platform where
  "gltfPlatform = samplePlatform\<lparr> Document_createElement := gltfDocument_createElement \<rparr>"

section \<open>Properties of the format validator\<close>

lemma word32_of_nat_eq_magic:
  assumes "n < 2 ^ 32"
  shows "(word_of_nat n = (0x46546C67 :: 32 word)) \<longleftrightarrow> n = 0x46546C67"
proof
  assume "word_of_nat n = (0x46546C67 :: 32 word)"
  then have "unat (word_of_nat n :: 32 word) = unat (0x46546C67 :: 32 word)" by simp
  moreover have "unat (word_of_nat n :: 32 word) = n"
    using assms by (simp add: unat_of_nat take_bit_nat_eq_self)
  ultimately show "n = 0x46546C67" by simp
next
  assume "n = 0x46546C67"
  then show "word_of_nat n = (0x46546C67 :: 32 word)" by simp
qed

lemma split256:
  fixes a k n :: nat
  assumes "a < 256" "a + 256 * k = n"
  shows "a = n mod 256 \<and> k = n div 256"
  using assms by auto

lemma base256_magic:
  fixes a b c d :: nat
  assumes "a < 256" "b < 256" "c < 256" "d < 256"
  shows "(a + 256 * b + 65536 * c + 16777216 * d = 1179937895) \<longleftrightarrow>
         (a = 103 \<and> b = 108 \<and> c = 84 \<and> d = 70)"
proof
  assume "a + 256 * b + 65536 * c + 16777216 * d = 1179937895"
  then have e: "a + 256 * (b + 256 * (c + 256 * d)) = 1179937895" by simp
  from split256 [OF assms(1) e] have 1: "a = 103" and e1: "b + 256 * (c + 256 * d) = 4609132"
    by simp_all
  from split256 [OF assms(2) e1] have 2: "b = 108" and e2: "c + 256 * d = 18004"
    by simp_all
  from split256 [OF assms(3) e2] have "c = 84" and "d = 70"
    by simp_all
  with 1 2 show "a = 103 \<and> b = 108 \<and> c = 84 \<and> d = 70" by simp
next
  assume "a = 103 \<and> b = 108 \<and> c = 84 \<and> d = 70"
  then show "a + 256 * b + 65536 * c + 16777216 * d = 1179937895" by simp
qed

lemma le32_magic_bytes:
  fixes b0 b1 b2 b3 :: byte
  shows "(word_of_nat (unat b0 + 2 ^ 8 * unat b1 + 2 ^ 16 * unat b2 + 2 ^ 24 * unat b3) = (0x46546C67 :: 32 word))
     \<longleftrightarrow> (b0 = 0x67 \<and> b1 = 0x6C \<and> b2 = 0x54 \<and> b3 = 0x46)"
proof -
  let ?n = "unat b0 + 2 ^ 8 * unat b1 + 2 ^ 16 * unat b2 + 2 ^ 24 * unat b3"
  have b: "unat b0 < 256" "unat b1 < 256" "unat b2 < 256" "unat b3 < 256"
    using unsigned_less [of b0] unsigned_less [of b1] unsigned_less [of b2] unsigned_less [of b3] by simp_all
  then have lt: "?n < 2 ^ 32" by simp
  have "(word_of_nat ?n = (0x46546C67 :: 32 word)) \<longleftrightarrow> ?n = 0x46546C67"
    by (rule word32_of_nat_eq_magic [OF lt])
  also have "\<dots> \<longleftrightarrow> (unat b0 = 0x67 \<and> unat b1 = 0x6C \<and> unat b2 = 0x54 \<and> unat b3 = 0x46)"
    using base256_magic [OF b] by simp
  also have "\<dots> \<longleftrightarrow> (b0 = 0x67 \<and> b1 = 0x6C \<and> b2 = 0x54 \<and> b3 = 0x46)"
    by (simp add: word_unat_eq_iff)
  finally show ?thesis .
qed

lemma length_ge4E:
  assumes "4 \<le> length xs"
  obtains a b c d rest where "xs = a # b # c # d # rest"
proof -
  from assms obtain a r1 where 1: "xs = a # r1" by (cases xs) auto
  with assms obtain b r2 where 2: "r1 = b # r2" by (cases r1) auto
  with 1 assms obtain c r3 where 3: "r2 = c # r3" by (cases r2) auto
  with 1 2 assms obtain d r4 where 4: "r3 = d # r4" by (cases r3) auto
  from 1 2 3 4 that show thesis by blast
qed

text \<open>
  Claim C9. The validator is a total boolean function (the \<open>RangeError\<close> of a read past the
  end is absorbed by its \<open>catch\<close>). It answers true exactly when the buffer holds at least
  four bytes and the first four, read as a little-endian 32-bit integer, are the magic
  \<open>0x46546C67\<close>, that is the bytes \<open>67 6C 54 46\<close>; every shorter buffer and every other
  magic value is answered with false.
\<close>

theorem isValidGLB_magic:
  "(isValidGLB buffer \<longleftrightarrow>
     (4 \<le> length buffer \<and> getUint32 buffer 0 True = Inr 0x46546C67)) \<and>
   (isValidGLB buffer \<longleftrightarrow> take 4 buffer = [0x67, 0x6C, 0x54, 0x46])"
proof (cases "4 \<le> length buffer")
  case True
  then obtain a b c d rest where buf: "buffer = a # b # c # d # rest"
    by (rule length_ge4E)
  show ?thesis
    unfolding buf isValidGLB_def getUint32_def Let_def
    using le32_magic_bytes [of a b c d]
    by (simp del: of_nat_add of_nat_mult)
next
  case False
  have "take 4 buffer \<noteq> [0x67, 0x6C, 0x54, 0x46]"
  proof
    assume "take 4 buffer = [0x67, 0x6C, 0x54, 0x46]"
    then have "length (take 4 buffer) = 4" by simp
    with False show False by simp
  qed
  with False show ?thesis
    by (simp add: isValidGLB_def getUint32_def)
qed

section \<open>Properties of binary64 rounding\<close>

lemma roundHalfEven_ge: "of_int n \<le> y \<Longrightarrow> n \<le> roundHalfEven y"
proof -
  assume "of_int n \<le> y"
  then have "n \<le> \<lfloor>y\<rfloor>" by (simp add: le_floor_iff)
  then show ?thesis by (auto simp: roundHalfEven_def Let_def)
qed

lemma roundHalfEven_le: "y \<le> of_int n \<Longrightarrow> roundHalfEven y \<le> n"
proof (cases "y = of_int n")
  case True
  then show ?thesis by (simp add: roundHalfEven_def)
next
  case False
  assume "y \<le> of_int n"
  with False have "y < of_int n" by simp
  then have "\<lfloor>y\<rfloor> < n" by (simp add: floor_less_iff)
  then show ?thesis by (auto simp: roundHalfEven_def Let_def)
qed

lemma bitlen_pos_bounds:
  assumes "0 < (p::int)"
  shows "1 \<le> bitlen p" "(2::rat) powi (bitlen p - 1) \<le> of_int p" "of_int p < (2::rat) powi bitlen p"
proof -
  from bitlen_bounds [OF assms] have b: "2 ^ nat (bitlen p - 1) \<le> p" "p < 2 ^ nat (bitlen p)"
    by simp_all
  show 1: "1 \<le> bitlen p"
    using assms by (simp add: bitlen_alt_def)
  have "(of_int (2 ^ nat (bitlen p - 1)) :: rat) \<le> of_int p"
    using b(1) by (simp only: of_int_le_iff)
  then show "(2::rat) powi (bitlen p - 1) \<le> of_int p"
    using 1 by (simp add: power_int_def)
  have "(of_int p :: rat) < of_int (2 ^ nat (bitlen p))"
    using b(2) by (simp only: of_int_less_iff)
  then show "of_int p < (2::rat) powi bitlen p"
    using 1 by (simp add: power_int_def)
qed

lemma binade_bounds:
  assumes "0 < x"
  shows "2 powi binade x \<le> x" "x < 2 powi (binade x + 1)"
proof -
  obtain p q where pq: "quotient_of x = (p, q)" by (cases "quotient_of x")
  then have q: "0 < q" and x: "x = of_int p / of_int q"
    by (simp_all add: quotient_of_denom_pos quotient_of_div)
  with assms have p: "0 < p"
    by (simp add: zero_less_divide_iff)
  let ?k = "bitlen p - bitlen q"
  have lo: "(2::rat) powi (?k - 1) \<le> x"
  proof -
    have "(2::rat) powi (?k - 1) = 2 powi (bitlen p - 1) / 2 powi bitlen q"
      by (simp add: power_int_diff)
    also have "\<dots> \<le> of_int p / 2 powi bitlen q"
      using bitlen_pos_bounds(2) [OF p] by (simp add: divide_right_mono)
    also have "\<dots> \<le> of_int p / of_int q"
      using bitlen_pos_bounds(3) [OF q] p q by (intro divide_left_mono) simp_all
    finally show ?thesis by (simp add: x)
  qed
  have hi: "x < (2::rat) powi (?k + 1)"
  proof -
    have "of_int p / of_int q < 2 powi bitlen p / (of_int q :: rat)"
      using bitlen_pos_bounds(3) [OF p] q by (simp add: divide_strict_right_mono)
    also have "\<dots> \<le> 2 powi bitlen p / 2 powi (bitlen q - 1)"
      using bitlen_pos_bounds(2) [OF q] q by (intro divide_left_mono) simp_all
    also have "\<dots> = 2 powi (?k + 1)"
      by (simp add: power_int_diff power_int_add)
    finally show ?thesis by (simp add: x)
  qed
  have b: "binade x = (if 2 powi ?k \<le> x then ?k else ?k - 1)"
    by (simp add: binade_def pq Let_def)
  show "2 powi binade x \<le> x"
    using lo by (simp add: b)
  show "x < 2 powi (binade x + 1)"
    using hi by (auto simp: b not_le)
qed

lemma ulp_pos: "0 < ulp x"
  by (simp add: ulp_def)

lemma powi2_less_imp: "(2::rat) powi m < 2 powi n \<Longrightarrow> m < n"
proof (rule ccontr)
  assume a: "(2::rat) powi m < 2 powi n" and "\<not> m < n"
  then have "n \<le> m" by simp
  then have "(2::rat) powi n \<le> 2 powi m"
    by (intro power_int_increasing) simp_all
  with a show False by simp
qed

lemma binade_nonneg: "1 \<le> x \<Longrightarrow> 0 \<le> binade x"
proof -
  assume x: "1 \<le> x"
  then have "(2::rat) powi 0 < 2 powi (binade x + 1)"
    using binade_bounds(2) [of x] by simp
  then have "0 < binade x + 1"
    by (rule powi2_less_imp)
  then show ?thesis by simp
qed

lemma binade_le: "0 < x \<Longrightarrow> x < 2 powi n \<Longrightarrow> binade x < n"
proof -
  assume "0 < x" "x < 2 powi n"
  then have "(2::rat) powi binade x < 2 powi n"
    using binade_bounds(1) [of x] by simp
  then show ?thesis
    by (rule powi2_less_imp)
qed

lemma binary64_ge_on_grid:
  assumes "0 < x" "a \<le> x" "a / ulp x = of_int n"
  shows "a \<le> binary64 x"
proof -
  have "of_int n \<le> x / ulp x"
    using assms(2) ulp_pos [of x] by (simp add: assms(3) [symmetric] divide_right_mono)
  then have "n \<le> roundHalfEven (x / ulp x)" by (rule roundHalfEven_ge)
  then have "(of_int n :: rat) * ulp x \<le> of_int (roundHalfEven (x / ulp x)) * ulp x"
    using ulp_pos [of x] by (simp add: mult_right_mono)
  moreover have "of_int n * ulp x = a"
    using ulp_pos [of x] by (simp add: assms(3) [symmetric])
  ultimately show ?thesis using assms(1) by (simp add: binary64_def)
qed

lemma binary64_le_on_grid:
  assumes "0 < x" "x \<le> a" "a / ulp x = of_int n"
  shows "binary64 x \<le> a"
proof -
  have "x / ulp x \<le> of_int n"
    using assms(2) ulp_pos [of x] by (simp add: assms(3) [symmetric] divide_right_mono)
  then have "roundHalfEven (x / ulp x) \<le> n" by (rule roundHalfEven_le)
  then have "of_int (roundHalfEven (x / ulp x)) * ulp x \<le> (of_int n :: rat) * ulp x"
    using ulp_pos [of x] by (simp add: mult_right_mono)
  moreover have "of_int n * ulp x = a"
    using ulp_pos [of x] by (simp add: assms(3) [symmetric])
  ultimately show ?thesis using assms(1) by (simp add: binary64_def)
qed

lemma int_on_grid:
  assumes "m \<le> 52"
  shows "\<exists>n. (of_int A :: rat) / 2 powi (m - 52) = of_int n"
proof -
  have "(of_int A :: rat) / 2 powi (m - 52) = of_int A * 2 powi (52 - m)"
    by (simp add: power_int_diff)
  also have "\<dots> = of_int (A * 2 ^ nat (52 - m))"
    using assms by (simp add: power_int_def)
  finally show ?thesis by blast
qed

lemma binary64_ge_int:
  assumes "0 \<le> A" "A < 2 ^ 53" "of_int A \<le> x"
  shows "of_int A \<le> binary64 x"
proof (cases "x = 0")
  case True
  with assms show ?thesis by (simp add: binary64_def)
next
  case False
  have "(0::rat) \<le> of_int A" using assms(1) by simp
  with assms(3) have "0 \<le> x" by linarith
  with False have x: "0 < x" by simp
  show ?thesis
  proof (cases "A = 0")
    case True
    have "(0::rat) / ulp x = of_int 0" by simp
    from binary64_ge_on_grid [OF x _ this] x True show ?thesis by simp
  next
    case A: False
    with assms(1) have "1 \<le> A" by simp
    then have "(1::rat) \<le> of_int A" by simp
    with assms(3) have "1 \<le> x" by linarith
    then have e: "0 \<le> binade x" by (rule binade_nonneg)
    with x have u: "ulp x = 2 powi (binade x - 52)"
      by (simp add: ulp_def max_def)
    show ?thesis
    proof (cases "binade x \<le> 52")
      case True
      from int_on_grid [OF True, of A] obtain n where "(of_int A :: rat) / ulp x = of_int n"
        unfolding u by blast
      from binary64_ge_on_grid [OF x assms(3) this] show ?thesis .
    next
      case False
      then have "53 \<le> binade x" by simp
      have "(2::rat) powi binade x / ulp x = of_int (2 ^ 52)"
        unfolding u by (simp add: power_int_diff)
      from binary64_ge_on_grid [OF x binade_bounds(1) [OF x] this]
      have "(2::rat) powi binade x \<le> binary64 x" .
      moreover have "(2::rat) powi 53 \<le> 2 powi binade x"
        using \<open>53 \<le> binade x\<close> by (intro power_int_increasing) simp_all
      moreover have "(of_int A :: rat) < 2 powi 53"
      proof -
        have "(of_int A :: rat) < of_int (2 ^ 53)"
          using assms(2) by (simp only: of_int_less_iff)
        then show ?thesis by simp
      qed
      ultimately show ?thesis by simp
    qed
  qed
qed

lemma binary64_le_int:
  assumes "0 \<le> x" "x \<le> of_int A" "A < 2 ^ 53"
  shows "binary64 x \<le> of_int A"
proof (cases "x = 0")
  case True
  with assms show ?thesis by (simp add: binary64_def)
next
  case False
  with assms have x: "0 < x" by simp
  have "(of_int A :: rat) < of_int (2 ^ 53)"
    using assms(3) by (simp only: of_int_less_iff)
  then have "x < 2 powi 53" using assms(2) by simp
  from binade_le [OF x this] have "max (binade x) (- 1022) \<le> 52" by simp
  from int_on_grid [OF this, of A] x obtain n where "(of_int A :: rat) / ulp x = of_int n"
    by (auto simp: ulp_def)
  from binary64_le_on_grid [OF x assms(2) this] show ?thesis .
qed

lemma binary64_int:
  assumes "0 \<le> A" "A < 2 ^ 53"
  shows "binary64 (of_int A) = of_int A"
  using binary64_ge_int [OF assms, of "of_int A"] binary64_le_int [of "of_int A" A] assms
  by simp

section \<open>Properties of the model inspector\<close>

lemma unpositioned_zero:
  "\<not> hasPosition p \<Longrightarrow> positionCount p = 0"
  "\<not> hasPosition p \<Longrightarrow> triangleElements p = 0"
  by (simp_all add: hasPosition_def positionCount_def triangleElements_def)

lemma countPrimitive_eq:
  "countPrimitive p (v, t) =
     (if hasPosition p then (v + positionCount p, addThird p t) else (v, t))"
  by (simp add: countPrimitive_def positionCount_def triangleElements_def hasPosition_def
      addThird_def Let_def split: option.splits)

lemma fold_countPrimitive:
  "fold countPrimitive ps (v, t) =
     (v + sum_list (map positionCount ps), fold addThird (filter hasPosition ps) t)"
proof (induction ps arbitrary: v t)
  case Nil
  then show ?case by simp
next
  case (Cons p ps)
  show ?case
    by (simp add: countPrimitive_eq Cons.IH unpositioned_zero)
qed

lemma countMesh_eq:
  "countMesh m (v, t) =
     (v + sum_list (map positionCount (listPrimitives m)),
      fold addThird (filter hasPosition (listPrimitives m)) t)"
  by (simp add: countMesh_def fold_countPrimitive)

lemma fold_countMesh:
  "fold countMesh ms (v, t) =
     (v + sum_list (map positionCount (concat (map listPrimitives ms))),
      fold addThird (filter hasPosition (concat (map listPrimitives ms))) t)"
proof (induction ms arbitrary: v t)
  case Nil
  then show ?case by simp
next
  case (Cons m ms)
  show ?case
    by (simp add: countMesh_eq Cons.IH)
qed

lemma getModelStats_totals:
  "vertices (getModelStats d) = sum_list (map positionCount (allPrimitives d))"
  "triangles (getModelStats d) = \<lfloor>fold addThird (countedPrimitives d) 0\<rfloor>"
  by (simp_all add: getModelStats_def Let_def fold_countMesh allPrimitives_def
      countedPrimitives_def)

lemma third_ge: "(of_nat (c div 3) :: rat) \<le> of_nat c / 3"
proof -
  have "(of_nat (c div 3) :: rat) = of_int \<lfloor>(of_nat c :: rat) / of_nat 3\<rfloor>"
    by (simp only: floor_divide_of_nat_eq of_int_of_nat_eq)
  also have "\<dots> \<le> of_nat c / of_nat 3"
    by (rule of_int_floor_le)
  finally show ?thesis by simp
qed

lemma int_less_2p53: "n < 2 ^ 53 \<Longrightarrow> int n < 2 ^ 53"
proof -
  assume "n < 2 ^ 53"
  then have "int n < int (2 ^ 53)" by (simp only: of_nat_less_iff)
  then show ?thesis by simp
qed

lemma binary64_ge_nat:
  assumes "n < 2 ^ 53" "of_nat n \<le> x"
  shows "of_nat n \<le> binary64 x"
proof -
  have "int n < 2 ^ 53" using assms(1) by (rule int_less_2p53)
  with binary64_ge_int [of "int n" x] assms(2) show ?thesis by simp
qed

lemma binary64_nat:
  assumes "n < 2 ^ 53"
  shows "binary64 (of_nat n) = of_nat n"
proof -
  have "int n < 2 ^ 53" using assms by (rule int_less_2p53)
  with binary64_int [of "int n"] show ?thesis by simp
qed

lemma addThird_ge:
  assumes "of_nat A \<le> t" "A + triangleElements p div 3 < 2 ^ 53"
  shows "of_nat (A + triangleElements p div 3) \<le> addThird p t"
proof -
  have "triangleElements p div 3 < 2 ^ 53" using assms(2) by simp
  then have "of_nat (triangleElements p div 3) \<le> binary64 (of_nat (triangleElements p) / 3)"
    using third_ge by (rule binary64_ge_nat)
  with assms(1) have "of_nat (A + triangleElements p div 3)
      \<le> t + binary64 (of_nat (triangleElements p) / 3)"
    by simp
  with assms(2) show ?thesis
    unfolding addThird_def by (rule binary64_ge_nat)
qed

lemma fold_addThird_ge:
  assumes "of_nat A \<le> t" "A + (\<Sum>p\<leftarrow>ps. triangleElements p div 3) < 2 ^ 53"
  shows "of_nat (A + (\<Sum>p\<leftarrow>ps. triangleElements p div 3)) \<le> fold addThird ps t"
  using assms
proof (induction ps arbitrary: A t)
  case Nil
  then show ?case by simp
next
  case (Cons p ps)
  have b: "A + triangleElements p div 3 < 2 ^ 53" using Cons.prems(2) by simp
  have "of_nat (A + triangleElements p div 3) \<le> addThird p t"
    using Cons.prems(1) b by (rule addThird_ge)
  moreover have "(A + triangleElements p div 3) + (\<Sum>p\<leftarrow>ps. triangleElements p div 3) < 2 ^ 53"
    using Cons.prems(2) by (simp add: add.assoc)
  ultimately have "of_nat ((A + triangleElements p div 3) + (\<Sum>p\<leftarrow>ps. triangleElements p div 3))
      \<le> fold addThird ps (addThird p t)"
    by (rule Cons.IH)
  then show ?case by (simp add: add.assoc)
qed

lemma addThird_exact:
  assumes "3 dvd triangleElements p" "A + triangleElements p div 3 < 2 ^ 53"
  shows "addThird p (of_nat A) = of_nat (A + triangleElements p div 3)"
proof -
  have "(of_nat (triangleElements p) :: rat) / 3 = of_nat (triangleElements p div 3)"
    using assms(1) by (auto simp: dvd_def)
  moreover have "triangleElements p div 3 < 2 ^ 53" using assms(2) by simp
  ultimately have "binary64 (of_nat (triangleElements p) / 3) = of_nat (triangleElements p div 3)"
    by (simp add: binary64_nat)
  then have "addThird p (of_nat A) = binary64 (of_nat (A + triangleElements p div 3))"
    by (simp add: addThird_def)
  also have "\<dots> = of_nat (A + triangleElements p div 3)"
    using assms(2) by (rule binary64_nat)
  finally show ?thesis .
qed

lemma fold_addThird_exact:
  assumes "\<forall>p \<in> set ps. 3 dvd triangleElements p"
    "A + (\<Sum>p\<leftarrow>ps. triangleElements p div 3) < 2 ^ 53"
  shows "fold addThird ps (of_nat A) = of_nat (A + (\<Sum>p\<leftarrow>ps. triangleElements p div 3))"
  using assms
proof (induction ps arbitrary: A)
  case Nil
  then show ?case by simp
next
  case (Cons p ps)
  have b: "A + triangleElements p div 3 < 2 ^ 53" using Cons.prems(2) by simp
  have "3 dvd triangleElements p" using Cons.prems(1) by simp
  then have s: "addThird p (of_nat A) = of_nat (A + triangleElements p div 3)"
    using b by (rule addThird_exact)
  have "fold addThird ps (of_nat (A + triangleElements p div 3))
      = of_nat ((A + triangleElements p div 3) + (\<Sum>p\<leftarrow>ps. triangleElements p div 3))"
    using Cons.prems by (intro Cons.IH) (simp_all add: add.assoc)
  then show ?case by (simp add: s add.assoc)
qed

lemma sum_list_filter_zero:
  "(\<And>x. \<not> P x \<Longrightarrow> f x = (0::nat)) \<Longrightarrow> sum_list (map f (filter P xs)) = sum_list (map f xs)"
  by (induction xs) auto

lemma counted_thirds:
  "(\<Sum>p\<leftarrow>countedPrimitives d. triangleElements p div 3)
     = (\<Sum>p\<leftarrow>allPrimitives d. triangleElements p div 3)"
  unfolding countedPrimitives_def
  by (rule sum_list_filter_zero) (simp add: unpositioned_zero)

lemma allPrimitives_withoutUnpositioned:
  "allPrimitives (withoutUnpositioned d) = filter hasPosition (allPrimitives d)"
  by (simp add: allPrimitives_def withoutUnpositioned_def filter_concat o_def)

lemma binary64_sum_depends_on_order:
  "triangles (getModelStats (countsDocument [1, 4, 1])) = 1
   \<and> triangles (getModelStats (countsDocument [1, 1, 4])) = 2"
  by code_simp

text \<open>
  Claim C2, amended. For every document the inspector adds, for each primitive that has a
  \<open>POSITION\<close> attribute and in traversal order, the binary64 quotient \<open>indexCount / 3\<close>
  (indexed) or \<open>vertexCount / 3\<close> (not indexed) to a binary64 running total, untruncated, and
  truncates once, at the end: the triangle count is the floor of that total. With fewer than
  \<open>2^53\<close> triangles it is never below the sum of the truncated quotients, and it is equal to
  that sum when every count is a multiple of three. The total is the rounded sum in traversal
  order: index counts 1, 4, 1 give \<open>1.9999999999999998\<close> and one triangle, the same counts in
  the order 1, 1, 4 give two.
\<close>

theorem triangles_floor_of_binary64_sum:
  "triangles (getModelStats d) = \<lfloor>fold addThird (countedPrimitives d) 0\<rfloor>
   \<and> ((\<Sum>p\<leftarrow>allPrimitives d. triangleElements p div 3) < 2 ^ 53 \<longrightarrow>
        int (\<Sum>p\<leftarrow>allPrimitives d. triangleElements p div 3) \<le> triangles (getModelStats d))
   \<and> ((\<forall>p \<in> set (allPrimitives d). 3 dvd triangleElements p)
        \<and> (\<Sum>p\<leftarrow>allPrimitives d. triangleElements p div 3) < 2 ^ 53 \<longrightarrow>
        triangles (getModelStats d) = int (\<Sum>p\<leftarrow>allPrimitives d. triangleElements p div 3))
   \<and> triangles (getModelStats (countsDocument [1, 4, 1])) = 1
   \<and> triangles (getModelStats (countsDocument [1, 1, 4])) = 2"
proof -
  let ?S = "\<Sum>p\<leftarrow>allPrimitives d. triangleElements p div 3"
  have 1: "triangles (getModelStats d) = \<lfloor>fold addThird (countedPrimitives d) 0\<rfloor>"
    by (rule getModelStats_totals)
  have 2: "int ?S \<le> triangles (getModelStats d)" if "?S < 2 ^ 53"
  proof -
    have "of_nat (0 + (\<Sum>p\<leftarrow>countedPrimitives d. triangleElements p div 3))
        \<le> fold addThird (countedPrimitives d) 0"
      using that by (intro fold_addThird_ge) (simp_all add: counted_thirds)
    then have "(of_nat ?S :: rat) \<le> fold addThird (countedPrimitives d) 0"
      by (simp add: counted_thirds)
    then have "(of_int (int ?S) :: rat) \<le> fold addThird (countedPrimitives d) 0"
      by simp
    then show ?thesis
      unfolding 1 by (simp only: le_floor_iff)
  qed
  have 3: "triangles (getModelStats d) = int ?S"
    if "(\<forall>p \<in> set (allPrimitives d). 3 dvd triangleElements p) \<and> ?S < 2 ^ 53"
  proof -
    have "\<forall>p \<in> set (countedPrimitives d). 3 dvd triangleElements p"
      using that by (simp add: countedPrimitives_def)
    moreover have "0 + (\<Sum>p\<leftarrow>countedPrimitives d. triangleElements p div 3) < 2 ^ 53"
      using that by (simp add: counted_thirds)
    ultimately have "fold addThird (countedPrimitives d) (of_nat 0)
        = of_nat (0 + (\<Sum>p\<leftarrow>countedPrimitives d. triangleElements p div 3))"
      by (rule fold_addThird_exact)
    then have "fold addThird (countedPrimitives d) 0 = of_nat ?S"
      by (simp add: counted_thirds)
    then show ?thesis by (simp add: 1)
  qed
  from 1 2 3 binary64_sum_depends_on_order show ?thesis by blast
qed

theorem triangles_floor_of_binary64_sum_witness:
  "list_all (\<lambda>p. 3 dvd triangleElements p) (allPrimitives mixedDocument)
   \<and> (\<Sum>p\<leftarrow>allPrimitives mixedDocument. triangleElements p div 3) = 1
   \<and> triangles (getModelStats mixedDocument) = 1"
proof -
  have a: "allPrimitives mixedDocument =
      [indexedPrimitive 3 3, unpositionedPrimitive 6, unpositionedPrimitive 9]"
    by (simp add: mixedDocument_def allPrimitives_def)
  have b: "triangleElements (indexedPrimitive 3 3) = 3"
    "triangleElements (unpositionedPrimitive 6) = 0"
    "triangleElements (unpositionedPrimitive 9) = 0"
    by (simp_all add: triangleElements_def getAttribute_def indexedPrimitive_def
        unpositionedPrimitive_def)
  from a b triangles_floor_of_binary64_sum [of mixedDocument]
  show ?thesis by simp
qed

text \<open>
  Claim C2 as stated fails: in a mesh of two indexed primitives with two indices each, every
  primitive truncates to zero triangles, so the sum of the truncated values is 0, while the
  inspector reports \<open>floor(2/3 + 2/3) = 1\<close>.
\<close>

theorem triangles_not_sum_of_floors:
  "triangles (getModelStats sampleDocument) = 1 \<and> specTriangles sampleDocument = 0
   \<and> triangles (getModelStats sampleDocument) \<noteq> int (specTriangles sampleDocument)"
  by code_simp

text \<open>
  Claim C10. A primitive without a \<open>POSITION\<close> attribute leaves both running totals as they
  are, whether or not it has indices: the vertex and the triangle count of a document are
  those of the document without such primitives.
\<close>

theorem unpositioned_primitive_counts_nothing:
  "(\<not> hasPosition p \<longrightarrow> countPrimitive p totals = totals)
   \<and> vertices (getModelStats d) = vertices (getModelStats (withoutUnpositioned d))
   \<and> triangles (getModelStats d) = triangles (getModelStats (withoutUnpositioned d))"
proof -
  have "countPrimitive p totals = totals" if "\<not> hasPosition p"
    using that by (simp add: countPrimitive_def hasPosition_def)
  moreover have "vertices (getModelStats d) = vertices (getModelStats (withoutUnpositioned d))"
    by (simp add: getModelStats_totals allPrimitives_withoutUnpositioned
        sum_list_filter_zero unpositioned_zero)
  moreover have "triangles (getModelStats d) = triangles (getModelStats (withoutUnpositioned d))"
    by (simp add: getModelStats_totals countedPrimitives_def allPrimitives_withoutUnpositioned)
  ultimately show ?thesis by simp
qed

theorem unpositioned_primitive_counts_nothing_witness:
  "\<not> hasPosition (unpositionedPrimitive 6)
   \<and> countPrimitive (unpositionedPrimitive 6) (7, 2) = (7, 2)
   \<and> vertices (getModelStats mixedDocument) = 3
   \<and> triangles (getModelStats mixedDocument) = 1
   \<and> allPrimitives (withoutUnpositioned mixedDocument) = [indexedPrimitive 3 3]"
proof -
  have a: "\<not> hasPosition (unpositionedPrimitive 6)"
    by (simp add: hasPosition_def getAttribute_def unpositionedPrimitive_def)
  have b: "allPrimitives (withoutUnpositioned mixedDocument) = [indexedPrimitive 3 3]"
    by (simp add: withoutUnpositioned_def mixedDocument_def allPrimitives_def hasPosition_def
        getAttribute_def unpositionedPrimitive_def indexedPrimitive_def)
  have c: "vertices (getModelStats (withoutUnpositioned mixedDocument)) = 3
      \<and> triangles (getModelStats (withoutUnpositioned mixedDocument)) = 1"
    by code_simp
  from a b c unpositioned_primitive_counts_nothing [of "unpositionedPrimitive 6" "(7, 2)" mixedDocument]
  show ?thesis by simp
qed

section \<open>Properties of the geometry pass\<close>

text \<open>
  Claim C5. The pass runs the weld (tolerance \<open>1e-5\<close>), then the simplification with ratio
  \<open>max(0.3, 1 - meshDecimation / 100 * 0.7)\<close>, then the animation resampling when
  \<open>0 < meshDecimation < 80\<close>, and the resampling alone otherwise; a transform that throws
  ends the pass. The simplification is handed the string \<open>'meshopt'\<close> as its simplifier: on
  the sample document at \<open>meshDecimation = 60\<close> it throws, the pass ends with that
  \<open>TypeError\<close> and the resampling is not reached, where at \<open>meshDecimation = 0\<close> the pass
  completes. At 60 the ratio is the binary64 value \<open>0.5800000000000001\<close>.
\<close>

theorem mesh_pass_stops_at_simplify:
  "conservativeMeshOptimization P d s =
     (if 0 < meshDecimation s \<and> meshDecimation s < 80
      then (case runTransform P (Weld (binary64 (1 / 100000))) d of
              (d1, Some e) \<Rightarrow> (d1, Some e)
            | (d1, None) \<Rightarrow>
                (case runTransform P
                        (Simplify \<lparr> simplifier = ''meshopt'',
                                    ratio = max (binary64 (3 / 10))
                                              (binary64 (1 - binary64 (binary64 (meshDecimation s / 100)
                                                                         * binary64 (7 / 10)))),
                                    error = binary64 (1 / 1000), lockBorder = True \<rparr>) d1 of
                   (d2, Some e) \<Rightarrow> (d2, Some e)
                 | (d2, None) \<Rightarrow> runTransform P (Resample (binary64 (1 / 1000))) d2))
      else runTransform P (Resample (binary64 (1 / 1000))) d)
   \<and> conservativeMeshOptimization simplifyThrowsPlatform sampleDocument sampleSettings =
       (sampleDocument, Some (TypeError ''simplifier.simplify is not a function''))
   \<and> conservativeMeshOptimization simplifyThrowsPlatform sampleDocument
         (sampleSettings\<lparr> meshDecimation := 0 \<rparr>) = (sampleDocument, None)
   \<and> meshTransforms sampleSettings =
       [Weld (binary64 (1 / 100000)),
        Simplify \<lparr> simplifier = ''meshopt'', ratio = 326510972984361 / 562949953421312,
                   error = binary64 (1 / 1000), lockBorder = True \<rparr>,
        Resample (binary64 (1 / 1000))]"
proof -
  have 1: "conservativeMeshOptimization P d s =
     (if 0 < meshDecimation s \<and> meshDecimation s < 80
      then (case runTransform P (Weld (binary64 (1 / 100000))) d of
              (d1, Some e) \<Rightarrow> (d1, Some e)
            | (d1, None) \<Rightarrow>
                (case runTransform P
                        (Simplify \<lparr> simplifier = ''meshopt'',
                                    ratio = max (binary64 (3 / 10))
                                              (binary64 (1 - binary64 (binary64 (meshDecimation s / 100)
                                                                         * binary64 (7 / 10)))),
                                    error = binary64 (1 / 1000), lockBorder = True \<rparr>) d1 of
                   (d2, Some e) \<Rightarrow> (d2, Some e)
                 | (d2, None) \<Rightarrow> runTransform P (Resample (binary64 (1 / 1000))) d2))
      else runTransform P (Resample (binary64 (1 / 1000))) d)" for P d s
    by (simp add: conservativeMeshOptimization_def meshTransforms_def Let_def
        split: prod.splits option.splits)
  have prims: "allPrimitives sampleDocument \<noteq> []"
    by (simp add: allPrimitives_def sampleDocument_def)
  have 2: "conservativeMeshOptimization simplifyThrowsPlatform sampleDocument sampleSettings =
       (sampleDocument, Some (TypeError ''simplifier.simplify is not a function''))"
    unfolding 1 using prims
    by (simp add: simplifyThrowsPlatform_def samplePlatform_def sampleSettings_def gltfSimplify_def)
  have 3: "conservativeMeshOptimization simplifyThrowsPlatform sampleDocument
         (sampleSettings\<lparr> meshDecimation := 0 \<rparr>) = (sampleDocument, None)"
    unfolding 1
    by (simp add: simplifyThrowsPlatform_def samplePlatform_def sampleSettings_def)
  have 4: "meshTransforms sampleSettings =
       [Weld (binary64 (1 / 100000)),
        Simplify \<lparr> simplifier = ''meshopt'', ratio = 326510972984361 / 562949953421312,
                   error = binary64 (1 / 1000), lockBorder = True \<rparr>,
        Resample (binary64 (1 / 1000))]"
    by code_simp
  from 1 2 3 4 show ?thesis by blast
qed


section \<open>Properties of the texture pass\<close>

lemma collectMaterial_eq: "collectMaterial m used = used \<union> slotRefs m"
  by (auto simp: collectMaterial_def addUsed_def slotRefs_def split: option.splits)

lemma fold_collectMaterial:
  "fold collectMaterial ms used = used \<union> (\<Union>m \<in> set ms. slotRefs m)"
  by (induction ms arbitrary: used) (auto simp: collectMaterial_eq)

lemma usedTextures_eq: "usedTextures d = (\<Union>m \<in> set (listMaterials d). slotRefs m)"
  by (simp add: usedTextures_def fold_collectMaterial)

text \<open>
  Claim C6. The texture stage of \<open>optimizeGLB\<close> leaves the document alone when
  \<open>textureQuality\<close> is \<open>high\<close> and runs the embedded-safe strategy otherwise. After the
  strategy the textures of the document are, in their order and unchanged, exactly those
  whose reference sits in one of the five texture slots of some material; every other
  texture is gone, and the materials are as before.
\<close>

theorem embedded_texture_pruning:
  "(textureQuality s = High \<longrightarrow> textureStage d s = d)
   \<and> (textureQuality s \<noteq> High \<longrightarrow> textureStage d s = safeTextureOptimization d s)
   \<and> listTextures (safeTextureOptimization d s) =
       filter (\<lambda>t. \<exists>m \<in> set (listMaterials d). textureRef t \<in> slotRefs m) (listTextures d)
   \<and> set (listTextures (safeTextureOptimization d s)) =
       {t \<in> set (listTextures d). \<exists>m \<in> set (listMaterials d). textureRef t \<in> slotRefs m}
   \<and> listMaterials (safeTextureOptimization d s) = listMaterials d"
proof -
  have f: "listTextures (safeTextureOptimization d s) =
       filter (\<lambda>t. \<exists>m \<in> set (listMaterials d). textureRef t \<in> slotRefs m) (listTextures d)"
    by (simp add: safeTextureOptimization_def usedTextures_eq)
  have "set (listTextures (safeTextureOptimization d s)) =
       {t \<in> set (listTextures d). \<exists>m \<in> set (listMaterials d). textureRef t \<in> slotRefs m}"
    unfolding f by auto
  with f show ?thesis
    by (simp add: textureStage_def safeTextureOptimization_def)
qed

theorem embedded_texture_pruning_witness:
  "textureQuality sampleSettings \<noteq> High
   \<and> listTextures (textureStage sampleDocument sampleSettings) =
       [\<lparr> textureRef = 1, getImage = Some [0xFF, 0xD8, 0xFF], getMimeType = ''image/jpeg'' \<rparr>]
   \<and> textureStage sampleDocument (sampleSettings\<lparr> textureQuality := High \<rparr>) = sampleDocument"
  using embedded_texture_pruning [of sampleSettings sampleDocument]
    embedded_texture_pruning [of "sampleSettings\<lparr> textureQuality := High \<rparr>" sampleDocument]
  by (simp add: sampleSettings_def sampleDocument_def sampleMaterial_def sampleTextures_def
      slotRefs_def)

subsection \<open>The external strategy\<close>

lemma recompress_without_createElement:
  "Document_createElement P = gltfDocument_createElement \<Longrightarrow> recompressTexture P s t = t"
  by (simp add: recompressTexture_def gltfDocument_createElement_def split: option.splits)

lemma external_textures_untouched:
  "Document_createElement P = gltfDocument_createElement \<Longrightarrow> optimizeExternalTextures P d s = d"
proof -
  assume "Document_createElement P = gltfDocument_createElement"
  then have "recompressTexture P s = (\<lambda>t. t)"
    by (intro ext) (rule recompress_without_createElement)
  then show ?thesis
    by (simp add: optimizeExternalTextures_def)
qed

text \<open>
  Claim C3. With \<open>createElement\<close> called on the glTF-Transform document, as the source
  does, the pass changes no texture: the sample document, whose first two textures hold image
  bytes, comes back as it went in at quality \<open>low\<close>. Where the call yields a canvas, the same
  textures are replaced by the re-encoded JPEG bytes.
\<close>

theorem external_textures_never_recompressed:
  "optimizeExternalTextures gltfPlatform sampleDocument sampleSettings = sampleDocument
   \<and> listTextures sampleDocument =
       [\<lparr> textureRef = 0, getImage = Some [0x89, 0x50, 0x4E, 0x47], getMimeType = ''image/png'' \<rparr>,
        \<lparr> textureRef = 1, getImage = Some [0xFF, 0xD8, 0xFF], getMimeType = ''image/jpeg'' \<rparr>,
        \<lparr> textureRef = 2, getImage = None, getMimeType = ''image/png'' \<rparr>]
   \<and> listTextures (optimizeExternalTextures samplePlatform sampleDocument sampleSettings) =
       [\<lparr> textureRef = 0, getImage = Some [0xFF, 0xD8], getMimeType = ''image/jpeg'' \<rparr>,
        \<lparr> textureRef = 1, getImage = Some [0xFF, 0xD8], getMimeType = ''image/jpeg'' \<rparr>,
        \<lparr> textureRef = 2, getImage = None, getMimeType = ''image/png'' \<rparr>]"
proof -
  have "Document_createElement gltfPlatform = gltfDocument_createElement"
    by (simp add: gltfPlatform_def)
  then have "optimizeExternalTextures gltfPlatform sampleDocument sampleSettings = sampleDocument"
    by (rule external_textures_untouched)
  moreover have "listTextures (optimizeExternalTextures samplePlatform sampleDocument sampleSettings) =
       [\<lparr> textureRef = 0, getImage = Some [0xFF, 0xD8], getMimeType = ''image/jpeg'' \<rparr>,
        \<lparr> textureRef = 1, getImage = Some [0xFF, 0xD8], getMimeType = ''image/jpeg'' \<rparr>,
        \<lparr> textureRef = 2, getImage = None, getMimeType = ''image/png'' \<rparr>]"
    by (simp add: optimizeExternalTextures_def recompressTexture_def samplePlatform_def
        sampleDocument_def sampleTextures_def Let_def)
  ultimately show ?thesis
    by (simp add: sampleDocument_def sampleTextures_def)
qed

text \<open>The canvas size is the floor of a binary64 product: a raster 561 pixels wide at
  quality \<open>low\<close> is drawn 511 pixels wide, as \<open>561 * (512 / 561)\<close> is
  \<open>511.99999999999994\<close>.\<close>

lemma resize_561:
  "resizeScale (maxSizeOf Low) 561 561 = 2055118546536269 / 2251799813685248
   \<and> nat \<lfloor>binary64 (of_nat 561 * resizeScale (maxSizeOf Low) 561 561)\<rfloor> = 511"
proof -
  have a: "binary64 (512 / 561) = 2055118546536269 / 2251799813685248"
    by code_simp
  have b: "\<lfloor>binary64 (561 * (2055118546536269 / 2251799813685248))\<rfloor> = 511"
    by code_simp
  have c: "resizeScale (maxSizeOf Low) 561 561 = 2055118546536269 / 2251799813685248"
    by (simp add: resizeScale_def maxSizeOf_def a)
  show ?thesis
    unfolding c using b by simp
qed

section \<open>Properties of the compression pass\<close>

lemma binary64_9: "binary64 9 = 9"
  using binary64_int [of 9] by simp

text \<open>
  Claim C7. The pass runs the Draco transform with the options \<open>dracoOptions\<close> and keeps the
  document it leaves. Requested levels 9 and 10 give the options, and the pass, of level 7:
  the level is capped at 7, positions and texture coordinates get \<open>max(10, 16 - level)\<close>
  bits, normals, colours and generic attributes \<open>max(8, 16 - level)\<close> bits, which at level 7
  is 10 and 9.
\<close>

theorem draco_level_clamp:
  "dracoOptions (withLevel s 9) = dracoOptions (withLevel s 7)
   \<and> dracoOptions (withLevel s 10) = dracoOptions (withLevel s 7)
   \<and> safeDracoCompression P d (withLevel s 9) = safeDracoCompression P d (withLevel s 7)
   \<and> safeDracoCompression P d (withLevel s 10) = safeDracoCompression P d (withLevel s 7)
   \<and> dracoOptions (withLevel s 7) =
        \<lparr> quantizePosition = 10, quantizeNormal = 9, quantizeTexcoord = 10,
          quantizeColor = 9, quantizeGeneric = 9 \<rparr>
   \<and> quantizePosition (dracoOptions s) = max 10 (binary64 (16 - min (level (dracoCompression s)) 7))
   \<and> quantizeTexcoord (dracoOptions s) = max 10 (binary64 (16 - min (level (dracoCompression s)) 7))
   \<and> quantizeNormal (dracoOptions s) = max 8 (binary64 (16 - min (level (dracoCompression s)) 7))
   \<and> quantizeColor (dracoOptions s) = max 8 (binary64 (16 - min (level (dracoCompression s)) 7))
   \<and> quantizeGeneric (dracoOptions s) = max 8 (binary64 (16 - min (level (dracoCompression s)) 7))
   \<and> safeDracoCompression P d s = fst (runTransform P (Draco (dracoOptions s)) d)
   \<and> safeDracoCompression P d (withLevel s 9) =
       fst (runTransform P
              (Draco \<lparr> quantizePosition = 10, quantizeNormal = 9, quantizeTexcoord = 10,
                       quantizeColor = 9, quantizeGeneric = 9 \<rparr>) d)
   \<and> safeDracoCompression P d (withLevel s 10) =
       fst (runTransform P
              (Draco \<lparr> quantizePosition = 10, quantizeNormal = 9, quantizeTexcoord = 10,
                       quantizeColor = 9, quantizeGeneric = 9 \<rparr>) d)"
proof -
  have run: "safeDracoCompression P d s' = fst (runTransform P (Draco (dracoOptions s')) d)" for s'
    by (simp add: safeDracoCompression_def split: prod.splits option.splits)
  have o: "dracoOptions (withLevel s l) =
        \<lparr> quantizePosition = 10, quantizeNormal = 9, quantizeTexcoord = 10,
          quantizeColor = 9, quantizeGeneric = 9 \<rparr>" if "7 \<le> l" for l
    using that by (simp add: dracoOptions_def withLevel_def Let_def min_def binary64_9)
  have g: "quantizePosition (dracoOptions s) = max 10 (binary64 (16 - min (level (dracoCompression s)) 7))
   \<and> quantizeTexcoord (dracoOptions s) = max 10 (binary64 (16 - min (level (dracoCompression s)) 7))
   \<and> quantizeNormal (dracoOptions s) = max 8 (binary64 (16 - min (level (dracoCompression s)) 7))
   \<and> quantizeColor (dracoOptions s) = max 8 (binary64 (16 - min (level (dracoCompression s)) 7))
   \<and> quantizeGeneric (dracoOptions s) = max 8 (binary64 (16 - min (level (dracoCompression s)) 7))"
    by (simp add: dracoOptions_def Let_def)
  from o [of 7] o [of 9] o [of 10] run [of s] run [of "withLevel s 7"] run [of "withLevel s 9"]
    run [of "withLevel s 10"] g
  show ?thesis by simp
qed

section \<open>Properties of the single-file orchestrator\<close>

lemma fallback_result:
  "\<exists>r. snd (safeFallbackOptimization f s calls) = Inr r
       \<and> blobData (optimizedBlob r) = contents f
       \<and> originalSize (stats r) = int (fileSize f)
       \<and> optimizedSize (stats r) \<le> originalSize (stats r)
       \<and> modelInfo r = NotAvailable"
proof -
  have le: "\<lfloor>(of_nat n :: rat) * k\<rfloor> \<le> int n" if "k \<le> 1" for n k
  proof -
    have "(of_nat n :: rat) * k \<le> of_nat n * 1"
      using that by (intro mult_left_mono) simp_all
    then have "\<lfloor>(of_nat n :: rat) * k\<rfloor> \<le> \<lfloor>(of_nat n :: rat)\<rfloor>"
      by (intro floor_mono) simp
    then show ?thesis by simp
  qed
  show ?thesis
    by (simp add: safeFallbackOptimization_def Let_def arrayBuffer_def le)
qed

lemma optimizeGLB_cases:
  "optimizeGLB P f s =
     (if isl (snd (optimizeGLB_try P f s))
      then safeFallbackOptimization f s (fst (optimizeGLB_try P f s))
      else optimizeGLB_try P f s)"
  by (cases "optimizeGLB_try P f s"; cases "snd (optimizeGLB_try P f s)")
     (auto simp: optimizeGLB_def)

text \<open>
  Claim C1. \<open>optimizeGLB\<close> returns a result for every platform, file and settings. When an
  exception leaves the body of its \<open>try\<close>, as it does when the input fails the format check
  or the decoder throws, the result holds the bytes of the input file, reports the file's size
  as \<open>originalSize\<close> and an \<open>optimizedSize\<close> that is not larger, and marks the model
  statistics unavailable.
\<close>

theorem optimizeGLB_never_throws:
  "(\<exists>r. snd (optimizeGLB P f s) = Inr r)
   \<and> (isl (snd (optimizeGLB_try P f s)) \<longrightarrow>
        (\<exists>r. snd (optimizeGLB P f s) = Inr r
           \<and> blobData (optimizedBlob r) = contents f
           \<and> originalSize (stats r) = int (fileSize f)
           \<and> optimizedSize (stats r) \<le> originalSize (stats r)
           \<and> modelInfo r = NotAvailable))
   \<and> (\<not> isValidGLB (arrayBuffer f) \<longrightarrow> isl (snd (optimizeGLB_try P f s)))
   \<and> (isValidGLB (arrayBuffer f) \<and> readBinary P (arrayBuffer f) = Inl e \<longrightarrow>
        isl (snd (optimizeGLB_try P f s)))
   \<and> (isValidGLB (arrayBuffer f) \<and> readBinary P (arrayBuffer f) = Inr d0
        \<and> conservativeMeshOptimization P d0 s = (d1, Some e) \<longrightarrow>
        isl (snd (optimizeGLB_try P f s)))
   \<and> (isValidGLB (arrayBuffer f) \<and> readBinary P (arrayBuffer f) = Inr d0
        \<and> conservativeMeshOptimization P d0 s = (d1, None)
        \<and> transformDocument P (compressionStage P (textureStage d1 s) s) [Dedup, Prune]
             = (d4, Some e) \<longrightarrow>
        isl (snd (optimizeGLB_try P f s)))
   \<and> (isValidGLB (arrayBuffer f) \<and> readBinary P (arrayBuffer f) = Inr d0
        \<and> conservativeMeshOptimization P d0 s = (d1, None)
        \<and> transformDocument P (compressionStage P (textureStage d1 s) s) [Dedup, Prune]
             = (d4, None)
        \<and> writeBinary P d4 = Inl e \<longrightarrow>
        isl (snd (optimizeGLB_try P f s)))
   \<and> (isValidGLB (arrayBuffer f) \<and> readBinary P (arrayBuffer f) = Inr d0
        \<and> conservativeMeshOptimization P d0 s = (d1, None)
        \<and> transformDocument P (compressionStage P (textureStage d1 s) s) [Dedup, Prune]
             = (d4, None)
        \<and> writeBinary P d4 = Inr buf \<and> \<not> isValidGLB (underlying buf) \<longrightarrow>
        isl (snd (optimizeGLB_try P f s)))"
proof -
  have 1: "\<exists>r. snd (optimizeGLB P f s) = Inr r"
  proof (cases "isl (snd (optimizeGLB_try P f s))")
    case True
    then show ?thesis
      using fallback_result [of f s "fst (optimizeGLB_try P f s)"]
      by (auto simp: optimizeGLB_cases)
  next
    case False
    then show ?thesis
      by (cases "snd (optimizeGLB_try P f s)") (auto simp: optimizeGLB_cases)
  qed
  have 2: "\<exists>r. snd (optimizeGLB P f s) = Inr r
           \<and> blobData (optimizedBlob r) = contents f
           \<and> originalSize (stats r) = int (fileSize f)
           \<and> optimizedSize (stats r) \<le> originalSize (stats r)
           \<and> modelInfo r = NotAvailable"
    if "isl (snd (optimizeGLB_try P f s))"
    using that fallback_result [of f s "fst (optimizeGLB_try P f s)"]
    by (simp add: optimizeGLB_cases)
  have 3: "isl (snd (optimizeGLB_try P f s))" if "\<not> isValidGLB (arrayBuffer f)"
    using that by (simp add: optimizeGLB_try_def Let_def)
  have 4: "isl (snd (optimizeGLB_try P f s))"
    if "isValidGLB (arrayBuffer f) \<and> readBinary P (arrayBuffer f) = Inl e"
    using that by (simp add: optimizeGLB_try_def Let_def)
  have 5: "isl (snd (optimizeGLB_try P f s))"
    if "isValidGLB (arrayBuffer f) \<and> readBinary P (arrayBuffer f) = Inr d0
        \<and> conservativeMeshOptimization P d0 s = (d1, Some e)"
    using that by (simp add: optimizeGLB_try_def Let_def)
  have 6: "isl (snd (optimizeGLB_try P f s))"
    if "isValidGLB (arrayBuffer f) \<and> readBinary P (arrayBuffer f) = Inr d0
        \<and> conservativeMeshOptimization P d0 s = (d1, None)
        \<and> transformDocument P (compressionStage P (textureStage d1 s) s) [Dedup, Prune]
             = (d4, Some e)"
    using that by (simp add: optimizeGLB_try_def Let_def del: transformDocument.simps)
  have 7: "isl (snd (optimizeGLB_try P f s))"
    if "isValidGLB (arrayBuffer f) \<and> readBinary P (arrayBuffer f) = Inr d0
        \<and> conservativeMeshOptimization P d0 s = (d1, None)
        \<and> transformDocument P (compressionStage P (textureStage d1 s) s) [Dedup, Prune]
             = (d4, None)
        \<and> writeBinary P d4 = Inl e"
    using that by (simp add: optimizeGLB_try_def Let_def del: transformDocument.simps)
  have 8: "isl (snd (optimizeGLB_try P f s))"
    if "isValidGLB (arrayBuffer f) \<and> readBinary P (arrayBuffer f) = Inr d0
        \<and> conservativeMeshOptimization P d0 s = (d1, None)
        \<and> transformDocument P (compressionStage P (textureStage d1 s) s) [Dedup, Prune]
             = (d4, None)
        \<and> writeBinary P d4 = Inr buf \<and> \<not> isValidGLB (underlying buf)"
    using that by (simp add: optimizeGLB_try_def Let_def del: transformDocument.simps)
  from 1 2 3 4 5 6 7 8 show ?thesis by blast
qed

lemma sampleFile_valid: "isValidGLB (arrayBuffer sampleFile)"
  by (simp add: isValidGLB_def getUint32_def arrayBuffer_def sampleFile_def)

lemma badFile_invalid: "\<not> isValidGLB (arrayBuffer badFile)"
  by (simp add: isValidGLB_def getUint32_def arrayBuffer_def badFile_def)

theorem optimizeGLB_never_throws_witness:
  "(\<exists>r. snd (optimizeGLB samplePlatform badFile sampleSettings) = Inr r
        \<and> blobData (optimizedBlob r) = contents badFile
        \<and> optimizedSize (stats r) \<le> originalSize (stats r))
   \<and> (\<exists>r. snd (optimizeGLB decodeFailsPlatform sampleFile sampleSettings) = Inr r
        \<and> blobData (optimizedBlob r) = contents sampleFile
        \<and> optimizedSize (stats r) \<le> originalSize (stats r))
   \<and> (\<exists>r. snd (optimizeGLB resampleFailsPlatform sampleFile sampleSettings) = Inr r
        \<and> blobData (optimizedBlob r) = contents sampleFile
        \<and> optimizedSize (stats r) \<le> originalSize (stats r))
   \<and> (\<exists>r. snd (optimizeGLB pruneFailsPlatform sampleFile sampleSettings) = Inr r
        \<and> blobData (optimizedBlob r) = contents sampleFile
        \<and> optimizedSize (stats r) \<le> originalSize (stats r))
   \<and> (\<exists>r. snd (optimizeGLB encodeFailsPlatform sampleFile sampleSettings) = Inr r
        \<and> blobData (optimizedBlob r) = contents sampleFile
        \<and> optimizedSize (stats r) \<le> originalSize (stats r))
   \<and> (\<exists>r. snd (optimizeGLB garbagePlatform sampleFile sampleSettings) = Inr r
        \<and> blobData (optimizedBlob r) = contents sampleFile
        \<and> optimizedSize (stats r) \<le> originalSize (stats r))"
proof -
  let ?d3 = "\<lambda>P. compressionStage P (textureStage sampleDocument sampleSettings) sampleSettings"
  have a: "isl (snd (optimizeGLB_try samplePlatform badFile sampleSettings))"
    using badFile_invalid
      optimizeGLB_never_throws [of samplePlatform badFile sampleSettings]
    by blast
  have "isValidGLB (arrayBuffer sampleFile)
      \<and> readBinary decodeFailsPlatform (arrayBuffer sampleFile) = Inl (Error ''invalid container'')"
    using sampleFile_valid by (simp add: decodeFailsPlatform_def samplePlatform_def)
  then have b: "isl (snd (optimizeGLB_try decodeFailsPlatform sampleFile sampleSettings))"
    using optimizeGLB_never_throws [of decodeFailsPlatform sampleFile sampleSettings
        "Error ''invalid container''"]
    by blast
  have "isValidGLB (arrayBuffer sampleFile)
      \<and> readBinary resampleFailsPlatform (arrayBuffer sampleFile) = Inr sampleDocument
      \<and> conservativeMeshOptimization resampleFailsPlatform sampleDocument sampleSettings
          = (sampleDocument, Some (Error ''resample failed''))"
    using sampleFile_valid
    by (simp add: resampleFailsPlatform_def samplePlatform_def conservativeMeshOptimization_def
        meshTransforms_def sampleSettings_def)
  then have c: "isl (snd (optimizeGLB_try resampleFailsPlatform sampleFile sampleSettings))"
    using optimizeGLB_never_throws [of resampleFailsPlatform sampleFile sampleSettings
        "Error ''resample failed''" sampleDocument sampleDocument]
    by blast
  have "isValidGLB (arrayBuffer sampleFile)
      \<and> readBinary pruneFailsPlatform (arrayBuffer sampleFile) = Inr sampleDocument
      \<and> conservativeMeshOptimization pruneFailsPlatform sampleDocument sampleSettings
          = (sampleDocument, None)
      \<and> transformDocument pruneFailsPlatform (?d3 pruneFailsPlatform) [Dedup, Prune]
          = (?d3 pruneFailsPlatform, Some (Error ''prune failed''))"
    using sampleFile_valid
    by (simp add: pruneFailsPlatform_def samplePlatform_def conservativeMeshOptimization_def
        meshTransforms_def sampleSettings_def)
  then have d: "isl (snd (optimizeGLB_try pruneFailsPlatform sampleFile sampleSettings))"
    using optimizeGLB_never_throws [of pruneFailsPlatform sampleFile sampleSettings
        "Error ''prune failed''" sampleDocument sampleDocument "?d3 pruneFailsPlatform"]
    by blast
  have "isValidGLB (arrayBuffer sampleFile)
      \<and> readBinary encodeFailsPlatform (arrayBuffer sampleFile) = Inr sampleDocument
      \<and> conservativeMeshOptimization encodeFailsPlatform sampleDocument sampleSettings
          = (sampleDocument, None)
      \<and> transformDocument encodeFailsPlatform (?d3 encodeFailsPlatform) [Dedup, Prune]
          = (?d3 encodeFailsPlatform, None)
      \<and> writeBinary encodeFailsPlatform (?d3 encodeFailsPlatform) = Inl (Error ''encoder not available'')"
    using sampleFile_valid
    by (simp add: encodeFailsPlatform_def samplePlatform_def conservativeMeshOptimization_def
        meshTransforms_def sampleSettings_def)
  then have e: "isl (snd (optimizeGLB_try encodeFailsPlatform sampleFile sampleSettings))"
    using optimizeGLB_never_throws [of encodeFailsPlatform sampleFile sampleSettings
        "Error ''encoder not available''" sampleDocument sampleDocument "?d3 encodeFailsPlatform"]
    by blast
  have "isValidGLB (arrayBuffer sampleFile)
      \<and> readBinary garbagePlatform (arrayBuffer sampleFile) = Inr sampleDocument
      \<and> conservativeMeshOptimization garbagePlatform sampleDocument sampleSettings
          = (sampleDocument, None)
      \<and> transformDocument garbagePlatform (?d3 garbagePlatform) [Dedup, Prune]
          = (?d3 garbagePlatform, None)
      \<and> writeBinary garbagePlatform (?d3 garbagePlatform)
          = Inr \<lparr> underlying = [0, 0, 0, 0, 0], byteOffset = 0, byteLength = 5 \<rparr>
      \<and> \<not> isValidGLB (underlying \<lparr> underlying = [0, 0, 0, 0, 0], byteOffset = 0, byteLength = 5 \<rparr>)"
    using sampleFile_valid
    by (simp add: garbagePlatform_def samplePlatform_def conservativeMeshOptimization_def
        meshTransforms_def sampleSettings_def isValidGLB_def getUint32_def)
  then have g: "isl (snd (optimizeGLB_try garbagePlatform sampleFile sampleSettings))"
    using optimizeGLB_never_throws [of garbagePlatform sampleFile sampleSettings
        "Error ''unused''" sampleDocument sampleDocument "?d3 garbagePlatform"
        "\<lparr> underlying = [0, 0, 0, 0, 0], byteOffset = 0, byteLength = 5 \<rparr>"]
    by blast
  have fin: "\<exists>r. snd (optimizeGLB P f sampleSettings) = Inr r
        \<and> blobData (optimizedBlob r) = contents f
        \<and> optimizedSize (stats r) \<le> originalSize (stats r)"
    if "isl (snd (optimizeGLB_try P f sampleSettings))" for P f
    using that optimizeGLB_never_throws [of P f sampleSettings] by blast
  from fin [OF a] fin [OF b] fin [OF c] fin [OF d] fin [OF e] fin [OF g]
  show ?thesis by blast
qed

lemma fallback_calls:
  "fst (safeFallbackOptimization f s calls) = calls @ fallbackCalls"
  by (simp add: safeFallbackOptimization_def Let_def fallbackCalls_def)

lemma try_calls:
  "(isl (snd (optimizeGLB_try P f s)) \<and> fst (optimizeGLB_try P f s) = [(10, ''analyzing'')]
      \<and> (\<not> isValidGLB (arrayBuffer f) \<or> isl (readBinary P (arrayBuffer f))))
   \<or> (isValidGLB (arrayBuffer f) \<and> \<not> isl (readBinary P (arrayBuffer f))
      \<and> ((isl (snd (optimizeGLB_try P f s))
            \<and> map fst (fst (optimizeGLB_try P f s)) \<in>
                {[10, 20, 30], [10, 20, 30, 50, 60, 75, 90], [10, 20, 30, 50, 60, 75, 80, 90],
                 [10, 20, 30, 50, 60, 75, 90, 95], [10, 20, 30, 50, 60, 75, 80, 90, 95]})
          \<or> (\<not> isl (snd (optimizeGLB_try P f s))
            \<and> map fst (fst (optimizeGLB_try P f s)) \<in>
                {[10, 20, 30, 50, 60, 75, 90, 95, 100], [10, 20, 30, 50, 60, 75, 80, 90, 95, 100]})))"
proof (cases "isValidGLB (arrayBuffer f)")
  case False
  then show ?thesis by (simp add: optimizeGLB_try_def Let_def)
next
  case valid: True
  show ?thesis
  proof (cases "readBinary P (arrayBuffer f)")
    case (Inl e)
    with valid show ?thesis by (simp add: optimizeGLB_try_def Let_def)
  next
    case d0: (Inr d0)
    obtain d1 r1 where mesh: "conservativeMeshOptimization P d0 s = (d1, r1)"
      by (cases "conservativeMeshOptimization P d0 s")
    show ?thesis
    proof (cases r1)
      case (Some e)
      with valid d0 mesh show ?thesis by (simp add: optimizeGLB_try_def Let_def)
    next
      case None
      obtain d4 r4 where cleanup:
        "transformDocument P (compressionStage P (textureStage d1 s) s) [Dedup, Prune] = (d4, r4)"
        by (cases "transformDocument P (compressionStage P (textureStage d1 s) s) [Dedup, Prune]")
      show ?thesis
      proof (cases r4)
        case (Some e)
        with valid d0 mesh None cleanup show ?thesis
          by (simp add: optimizeGLB_try_def Let_def del: transformDocument.simps)
      next
        case n4: None
        show ?thesis
        proof (cases "writeBinary P d4")
          case (Inl e)
          with valid d0 mesh None cleanup n4 show ?thesis
            by (simp add: optimizeGLB_try_def Let_def del: transformDocument.simps)
        next
          case (Inr buf)
          with valid d0 mesh None cleanup n4 show ?thesis
            by (simp add: optimizeGLB_try_def Let_def del: transformDocument.simps)
        qed
      qed
    qed
  qed
qed

text \<open>
  Claim C4, amended. The percentages reported from the body of the \<open>try\<close> never decrease,
  and a run that does not divert reports nothing else. A run that diverts reports the
  fallback's 25, 50, 75, 100 after them. The percentages of the whole run never decrease
  exactly when the run does not divert, or diverts because the input fails the format check
  or the decoder throws, that is before the checkpoint 20.
\<close>

theorem progress_monotone_segments:
  "sorted (map fst (fst (optimizeGLB_try P f s)))
   \<and> fst (optimizeGLB P f s) =
       (if isl (snd (optimizeGLB_try P f s))
        then fst (optimizeGLB_try P f s) @ fallbackCalls
        else fst (optimizeGLB_try P f s))
   \<and> (sorted (map fst (fst (optimizeGLB P f s))) \<longleftrightarrow>
        \<not> isl (snd (optimizeGLB_try P f s)) \<or> \<not> isValidGLB (arrayBuffer f)
          \<or> isl (readBinary P (arrayBuffer f)))"
proof -
  have 2: "fst (optimizeGLB P f s) =
       (if isl (snd (optimizeGLB_try P f s))
        then fst (optimizeGLB_try P f s) @ fallbackCalls
        else fst (optimizeGLB_try P f s))"
    by (simp add: optimizeGLB_cases fallback_calls)
  have 1: "sorted (map fst (fst (optimizeGLB_try P f s)))"
    using try_calls [of P f s] by auto
  have 3: "sorted (map fst (fst (optimizeGLB P f s))) \<longleftrightarrow>
        \<not> isl (snd (optimizeGLB_try P f s)) \<or> \<not> isValidGLB (arrayBuffer f)
          \<or> isl (readBinary P (arrayBuffer f))"
    unfolding 2 using try_calls [of P f s]
    by (auto simp: fallbackCalls_def sorted_append)
  from 1 2 3 show ?thesis by blast
qed

text \<open>
  Claim C4 as stated fails: when the encoder throws, the run has reported 95 before the
  fallback reports 25.
\<close>

theorem progress_restarts_after_failure:
  "map fst (fst (optimizeGLB encodeFailsPlatform sampleFile sampleSettings)) =
     [10, 20, 30, 50, 60, 75, 80, 90, 95, 25, 50, 75, 100]
   \<and> \<not> sorted (map fst (fst (optimizeGLB encodeFailsPlatform sampleFile sampleSettings)))"
proof -
  have "optimizeGLB_try encodeFailsPlatform sampleFile sampleSettings =
     ([(10, ''analyzing''), (20, ''analyzing''), (30, ''optimizing''), (50, ''optimizing''),
       (60, ''compressing''), (75, ''compressing''), (80, ''compressing''),
       (90, ''finalizing''), (95, ''finalizing'')], Inl (Error ''encoder not available''))"
    using sampleFile_valid
    by (simp add: optimizeGLB_try_def Let_def encodeFailsPlatform_def samplePlatform_def
        sampleSettings_def conservativeMeshOptimization_def meshTransforms_def
        safeDracoCompression_def compressionStage_def)
  then show ?thesis
    by (simp add: optimizeGLB_def safeFallbackOptimization_def Let_def)
qed

theorem progress_monotone_segments_witness:
  "map fst (fst (optimizeGLB samplePlatform sampleFile sampleSettings)) =
     [10, 20, 30, 50, 60, 75, 80, 90, 95, 100]
   \<and> sorted (map fst (fst (optimizeGLB samplePlatform sampleFile sampleSettings)))
   \<and> map fst (fst (optimizeGLB samplePlatform badFile sampleSettings)) = [10, 25, 50, 75, 100]
   \<and> sorted (map fst (fst (optimizeGLB samplePlatform badFile sampleSettings)))
   \<and> map fst (fst (optimizeGLB decodeFailsPlatform sampleFile sampleSettings)) = [10, 25, 50, 75, 100]
   \<and> sorted (map fst (fst (optimizeGLB decodeFailsPlatform sampleFile sampleSettings)))"
proof -
  have ok: "map fst (fst (optimizeGLB_try samplePlatform sampleFile sampleSettings)) =
       [10, 20, 30, 50, 60, 75, 80, 90, 95, 100]
     \<and> \<not> isl (snd (optimizeGLB_try samplePlatform sampleFile sampleSettings))"
    using sampleFile_valid
    by (simp add: optimizeGLB_try_def Let_def samplePlatform_def
        sampleSettings_def conservativeMeshOptimization_def meshTransforms_def
        safeDracoCompression_def compressionStage_def isValidGLB_def getUint32_def)
  have bad: "fst (optimizeGLB_try samplePlatform badFile sampleSettings) = [(10, ''analyzing'')]
     \<and> isl (snd (optimizeGLB_try samplePlatform badFile sampleSettings))"
    using badFile_invalid by (simp add: optimizeGLB_try_def Let_def)
  have dec: "fst (optimizeGLB_try decodeFailsPlatform sampleFile sampleSettings) = [(10, ''analyzing'')]
     \<and> isl (snd (optimizeGLB_try decodeFailsPlatform sampleFile sampleSettings))
     \<and> isl (readBinary decodeFailsPlatform (arrayBuffer sampleFile))"
    using sampleFile_valid
    by (simp add: optimizeGLB_try_def Let_def decodeFailsPlatform_def samplePlatform_def)
  from ok bad dec badFile_invalid
    progress_monotone_segments [of samplePlatform sampleFile sampleSettings]
    progress_monotone_segments [of samplePlatform badFile sampleSettings]
    progress_monotone_segments [of decodeFailsPlatform sampleFile sampleSettings]
  show ?thesis
    by (simp add: fallbackCalls_def)
qed


section \<open>Properties of the multi-file orchestrator\<close>

lemma rethrow_same:
  "optimizeGLTFWithTextures P g ts s = optimizeGLTFWithTextures_try P g ts s"
  by (cases "optimizeGLTFWithTextures_try P g ts s"; cases "snd (optimizeGLTFWithTextures_try P g ts s)")
     (auto simp: optimizeGLTFWithTextures_def)

text \<open>
  Claim C8. The \<open>catch\<close> of \<open>optimizeGLTFWithTextures\<close> changes nothing: the caller gets
  the exception thrown by the JSON parser, the decoder, the geometry pass, the final cleanup
  or the encoder, whichever throws first. A result is returned only when the encoder
  succeeded, and it holds the encoder's bytes and the statistics of the encoded document,
  never the fallback's copy of the input.
\<close>

theorem multi_file_errors_propagate:
  "optimizeGLTFWithTextures P g ts s = optimizeGLTFWithTextures_try P g ts s
   \<and> (JSON_parse P (fileText g) = Inl e \<longrightarrow>
        snd (optimizeGLTFWithTextures P g ts s) = Inl e)
   \<and> (JSON_parse P (fileText g) = Inr j \<and> readJSON P j (textureMapOf ts) = Inl e \<longrightarrow>
        snd (optimizeGLTFWithTextures P g ts s) = Inl e)
   \<and> (JSON_parse P (fileText g) = Inr j \<and> readJSON P j (textureMapOf ts) = Inr d0
        \<and> conservativeMeshOptimization P d0 s = (d1, Some e) \<longrightarrow>
        snd (optimizeGLTFWithTextures P g ts s) = Inl e)
   \<and> (JSON_parse P (fileText g) = Inr j \<and> readJSON P j (textureMapOf ts) = Inr d0
        \<and> conservativeMeshOptimization P d0 s = (d1, None)
        \<and> transformDocument P (compressionStage P (optimizeExternalTextures P d1 s) s)
             [Dedup, Prune] = (d4, Some e) \<longrightarrow>
        snd (optimizeGLTFWithTextures P g ts s) = Inl e)
   \<and> (JSON_parse P (fileText g) = Inr j \<and> readJSON P j (textureMapOf ts) = Inr d0
        \<and> conservativeMeshOptimization P d0 s = (d1, None)
        \<and> transformDocument P (compressionStage P (optimizeExternalTextures P d1 s) s)
             [Dedup, Prune] = (d4, None)
        \<and> writeBinary P d4 = Inl e \<longrightarrow>
        snd (optimizeGLTFWithTextures P g ts s) = Inl e)
   \<and> (snd (optimizeGLTFWithTextures P g ts s) = Inr r \<longrightarrow>
        (\<exists>d buf. writeBinary P d = Inr buf \<and> blobData (optimizedBlob r) = viewBytes buf
            \<and> modelInfo r = Final (getModelStats d)))"
proof -
  have 7: "\<exists>d buf. writeBinary P d = Inr buf \<and> blobData (optimizedBlob r) = viewBytes buf
            \<and> modelInfo r = Final (getModelStats d)"
    if "snd (optimizeGLTFWithTextures P g ts s) = Inr r"
    using that unfolding rethrow_same optimizeGLTFWithTextures_try_def Let_def
    by (force split: sum.splits prod.splits option.splits simp del: transformDocument.simps)
  show ?thesis
    unfolding rethrow_same
    using 7 [unfolded rethrow_same]
    by (simp add: optimizeGLTFWithTextures_try_def Let_def del: transformDocument.simps)
qed

theorem multi_file_errors_propagate_witness:
  "snd (optimizeGLTFWithTextures parseFailsPlatform sampleFile [badFile] sampleSettings)
     = Inl (SyntaxError ''Unexpected token'')
   \<and> snd (optimizeGLTFWithTextures decodeFailsPlatform sampleFile [badFile] sampleSettings)
     = Inl (Error ''invalid container'')
   \<and> snd (optimizeGLTFWithTextures resampleFailsPlatform sampleFile [badFile] sampleSettings)
     = Inl (Error ''resample failed'')
   \<and> snd (optimizeGLTFWithTextures pruneFailsPlatform sampleFile [badFile] sampleSettings)
     = Inl (Error ''prune failed'')
   \<and> snd (optimizeGLTFWithTextures encodeFailsPlatform sampleFile [badFile] sampleSettings)
     = Inl (Error ''encoder not available'')
   \<and> (\<exists>r buf. snd (optimizeGLTFWithTextures samplePlatform sampleFile [badFile] sampleSettings) = Inr r
        \<and> blobData (optimizedBlob r) = viewBytes buf
        \<and> viewBytes buf = [0x67, 0x6C, 0x54, 0x46, 2, 0])"
proof -
  let ?d3 = "\<lambda>P. compressionStage P (optimizeExternalTextures P sampleDocument sampleSettings)
               sampleSettings"
  have "JSON_parse parseFailsPlatform (fileText sampleFile) = Inl (SyntaxError ''Unexpected token'')"
    by (simp add: parseFailsPlatform_def samplePlatform_def)
  then have e1: "snd (optimizeGLTFWithTextures parseFailsPlatform sampleFile [badFile] sampleSettings)
     = Inl (SyntaxError ''Unexpected token'')"
    using multi_file_errors_propagate [of parseFailsPlatform sampleFile "[badFile]" sampleSettings
        "SyntaxError ''Unexpected token''"]
    by blast
  have "JSON_parse decodeFailsPlatform (fileText sampleFile) = Inr (JObject [])
      \<and> readJSON decodeFailsPlatform (JObject []) (textureMapOf [badFile])
          = Inl (Error ''invalid container'')"
    by (simp add: decodeFailsPlatform_def samplePlatform_def)
  then have e2: "snd (optimizeGLTFWithTextures decodeFailsPlatform sampleFile [badFile] sampleSettings)
     = Inl (Error ''invalid container'')"
    using multi_file_errors_propagate [of decodeFailsPlatform sampleFile "[badFile]" sampleSettings
        "Error ''invalid container''" "JObject []"]
    by blast
  have "JSON_parse resampleFailsPlatform (fileText sampleFile) = Inr (JObject [])
      \<and> readJSON resampleFailsPlatform (JObject []) (textureMapOf [badFile]) = Inr sampleDocument
      \<and> conservativeMeshOptimization resampleFailsPlatform sampleDocument sampleSettings
          = (sampleDocument, Some (Error ''resample failed''))"
    by (simp add: resampleFailsPlatform_def samplePlatform_def conservativeMeshOptimization_def
        meshTransforms_def sampleSettings_def)
  then have e3: "snd (optimizeGLTFWithTextures resampleFailsPlatform sampleFile [badFile] sampleSettings)
     = Inl (Error ''resample failed'')"
    using multi_file_errors_propagate [of resampleFailsPlatform sampleFile "[badFile]" sampleSettings
        "Error ''resample failed''" "JObject []" sampleDocument sampleDocument]
    by blast
  have "JSON_parse pruneFailsPlatform (fileText sampleFile) = Inr (JObject [])
      \<and> readJSON pruneFailsPlatform (JObject []) (textureMapOf [badFile]) = Inr sampleDocument
      \<and> conservativeMeshOptimization pruneFailsPlatform sampleDocument sampleSettings
          = (sampleDocument, None)
      \<and> transformDocument pruneFailsPlatform (?d3 pruneFailsPlatform) [Dedup, Prune]
          = (?d3 pruneFailsPlatform, Some (Error ''prune failed''))"
    by (simp add: pruneFailsPlatform_def samplePlatform_def conservativeMeshOptimization_def
        meshTransforms_def sampleSettings_def)
  then have e4: "snd (optimizeGLTFWithTextures pruneFailsPlatform sampleFile [badFile] sampleSettings)
     = Inl (Error ''prune failed'')"
    using multi_file_errors_propagate [of pruneFailsPlatform sampleFile "[badFile]" sampleSettings
        "Error ''prune failed''" "JObject []" sampleDocument sampleDocument "?d3 pruneFailsPlatform"]
    by blast
  have "JSON_parse encodeFailsPlatform (fileText sampleFile) = Inr (JObject [])
      \<and> readJSON encodeFailsPlatform (JObject []) (textureMapOf [badFile]) = Inr sampleDocument
      \<and> conservativeMeshOptimization encodeFailsPlatform sampleDocument sampleSettings
          = (sampleDocument, None)
      \<and> transformDocument encodeFailsPlatform (?d3 encodeFailsPlatform) [Dedup, Prune]
          = (?d3 encodeFailsPlatform, None)
      \<and> writeBinary encodeFailsPlatform (?d3 encodeFailsPlatform)
          = Inl (Error ''encoder not available'')"
    by (simp add: encodeFailsPlatform_def samplePlatform_def conservativeMeshOptimization_def
        meshTransforms_def sampleSettings_def)
  then have e5: "snd (optimizeGLTFWithTextures encodeFailsPlatform sampleFile [badFile] sampleSettings)
     = Inl (Error ''encoder not available'')"
    using multi_file_errors_propagate [of encodeFailsPlatform sampleFile "[badFile]" sampleSettings
        "Error ''encoder not available''" "JObject []" sampleDocument sampleDocument
        "?d3 encodeFailsPlatform"]
    by blast
  obtain r where r: "snd (optimizeGLTFWithTextures_try samplePlatform sampleFile [badFile] sampleSettings) = Inr r"
    by (simp add: optimizeGLTFWithTextures_try_def Let_def samplePlatform_def
        conservativeMeshOptimization_def meshTransforms_def sampleSettings_def)
  then have r': "snd (optimizeGLTFWithTextures samplePlatform sampleFile [badFile] sampleSettings) = Inr r"
    using multi_file_errors_propagate [of samplePlatform sampleFile "[badFile]" sampleSettings]
    by simp
  then obtain d buf where "writeBinary samplePlatform d = Inr buf"
      and "blobData (optimizedBlob r) = viewBytes buf"
    using multi_file_errors_propagate [of samplePlatform sampleFile "[badFile]" sampleSettings
        _ _ _ _ _ r]
    by blast
  moreover from this have "viewBytes buf = [0x67, 0x6C, 0x54, 0x46, 2, 0]"
    by (auto simp: samplePlatform_def viewBytes_def)
  ultimately have e6: "\<exists>r buf. snd (optimizeGLTFWithTextures samplePlatform sampleFile [badFile] sampleSettings) = Inr r
        \<and> blobData (optimizedBlob r) = viewBytes buf
        \<and> viewBytes buf = [0x67, 0x6C, 0x54, 0x46, 2, 0]"
    using r' by blast
  from e1 e2 e3 e4 e5 e6 show ?thesis by blast
qed

end
